theory Spec2Isabelle
  imports Complex_Main
begin

section \<open>Values and errors\<close>

text \<open>
  The script computes on IEEE doubles (numpy) and singles (torch).  The claims about the
  evaluator speak about the special values, so a number is a finite value or one of
  \<open>+inf\<close>, \<open>-inf\<close>, \<open>nan\<close>.  Finite values are idealised as reals: rounding and overflow of
  finite arithmetic are not modelled.
\<close>

datatype fl = Fin real | PInf | NInf | NaN

text \<open>The Python exceptions that the modelled functions can raise.\<close>

datatype exn = IndexError | ValueError | TypeError | RuntimeError

fun isfinite :: "fl \<Rightarrow> bool" where
  "isfinite (Fin _) = True"
| "isfinite _ = False"

fun fl_neg :: "fl \<Rightarrow> fl" where
  "fl_neg (Fin a) = Fin (- a)"
| "fl_neg PInf = NInf"
| "fl_neg NInf = PInf"
| "fl_neg NaN = NaN"

fun fl_abs :: "fl \<Rightarrow> fl" where
  "fl_abs (Fin a) = Fin \<bar>a\<bar>"
| "fl_abs PInf = PInf"
| "fl_abs NInf = PInf"
| "fl_abs NaN = NaN"

fun fl_add :: "fl \<Rightarrow> fl \<Rightarrow> fl" where
  "fl_add (Fin a) (Fin b) = Fin (a + b)"
| "fl_add NaN _ = NaN"
| "fl_add _ NaN = NaN"
| "fl_add PInf NInf = NaN"
| "fl_add NInf PInf = NaN"
| "fl_add PInf _ = PInf"
| "fl_add _ PInf = PInf"
| "fl_add NInf _ = NInf"
| "fl_add _ NInf = NInf"

definition fl_sub :: "fl \<Rightarrow> fl \<Rightarrow> fl" where
  "fl_sub a b = fl_add a (fl_neg b)"

text \<open>Sign of an infinite product or quotient; zero counts as \<open>+0\<close>.\<close>

definition signed_inf :: "bool \<Rightarrow> fl" where
  "signed_inf positive = (if positive then PInf else NInf)"

fun fl_mul :: "fl \<Rightarrow> fl \<Rightarrow> fl" where
  "fl_mul (Fin a) (Fin b) = Fin (a * b)"
| "fl_mul NaN _ = NaN"
| "fl_mul _ NaN = NaN"
| "fl_mul (Fin a) PInf = (if a = 0 then NaN else signed_inf (0 < a))"
| "fl_mul (Fin a) NInf = (if a = 0 then NaN else signed_inf (a < 0))"
| "fl_mul PInf (Fin b) = (if b = 0 then NaN else signed_inf (0 < b))"
| "fl_mul NInf (Fin b) = (if b = 0 then NaN else signed_inf (b < 0))"
| "fl_mul PInf PInf = PInf"
| "fl_mul NInf NInf = PInf"
| "fl_mul PInf NInf = NInf"
| "fl_mul NInf PInf = NInf"

fun fl_div :: "fl \<Rightarrow> fl \<Rightarrow> fl" where
  "fl_div (Fin a) (Fin b) =
     (if b = 0 then (if a = 0 then NaN else signed_inf (0 < a)) else Fin (a / b))"
| "fl_div NaN _ = NaN"
| "fl_div _ NaN = NaN"
| "fl_div (Fin a) _ = Fin 0"
| "fl_div PInf (Fin b) = signed_inf (0 \<le> b)"
| "fl_div NInf (Fin b) = signed_inf (b < 0)"
| "fl_div _ _ = NaN"

text \<open>Comparison \<open>a < b\<close>; every comparison with \<open>nan\<close> is false.\<close>

fun fl_less :: "fl \<Rightarrow> fl \<Rightarrow> bool" where
  "fl_less (Fin a) (Fin b) = (a < b)"
| "fl_less NaN _ = False"
| "fl_less _ NaN = False"
| "fl_less _ NInf = False"
| "fl_less PInf _ = False"
| "fl_less _ _ = True"

fun fl_sqrt :: "fl \<Rightarrow> fl" where
  "fl_sqrt (Fin a) = (if a < 0 then NaN else Fin (sqrt a))"
| "fl_sqrt PInf = PInf"
| "fl_sqrt NInf = NaN"
| "fl_sqrt NaN = NaN"

fun fl_exp :: "fl \<Rightarrow> fl" where
  "fl_exp (Fin a) = Fin (exp a)"
| "fl_exp PInf = PInf"
| "fl_exp NInf = Fin 0"
| "fl_exp NaN = NaN"

section \<open>Sequence builder: \<open>create_sequences\<close>\<close>

text \<open>
  \<open>data_array\<close> is two-dimensional: a list of rows, column 0 being the log-return.  (A data
  frame is turned into such rows, a one-dimensional array into rows of one column.)  The
  loop runs over \<open>range(len(data_array) - lookback)\<close>, which is empty when the difference
  is not positive; \<open>data_array[i:(i + lookback)]\<close> is a slice, and
  \<open>data_array[i + lookback, 0]\<close> raises \<open>IndexError\<close> on an array without columns.
\<close>

fun seq_loop ::
  "'a list list \<Rightarrow> nat \<Rightarrow> nat list \<Rightarrow> 'a list list list \<times> 'a list
     \<Rightarrow> exn + ('a list list list \<times> 'a list)" where
  "seq_loop data_array lookback [] acc = Inr acc"
| "seq_loop data_array lookback (i # rest) (features, targets) =
     (case data_array ! (i + lookback) of
        [] \<Rightarrow> Inl IndexError
      | x # _ \<Rightarrow>
          seq_loop data_array lookback rest
            (features @ [take lookback (drop i data_array)], targets @ [x]))"

definition create_sequences ::
  "'a list list \<Rightarrow> nat \<Rightarrow> exn + ('a list list list \<times> 'a list)" where
  "create_sequences data_array lookback =
     seq_loop data_array lookback [0..<length data_array - lookback] ([], [])"

text \<open>\<open>data.reshape(-1, 1)\<close>: a one-dimensional array as rows of one column.\<close>

definition as_column :: "'a list \<Rightarrow> 'a list list" where
  "as_column xs = map (\<lambda>x. [x]) xs"

section \<open>The network, the optimiser and the scaler\<close>

text \<open>
  The network (\<open>FFNNModel\<close> is a stack of \<open>torch\<close> layers), the SGD optimiser, the data
  loader and \<open>StandardScaler\<close> are library objects; what they compute is a parameter of
  the model, collected in the record \<open>lib\<close>, and only the order in which the script calls
  them is modelled.  \<open>'p\<close> are the model parameters (the ModelState), \<open>'g\<close> the gradient
  buffers of the parameters, \<open>'o\<close> the optimiser state (learning rate, momentum buffers)
  and \<open>'sc\<close> a fitted scaler.  Library calls are taken to return.
\<close>

type_synonym sample = "fl list \<times> fl"

record ('p, 'g, 'o, 'sc) lib =
  new_model :: 'p
  new_grad :: 'g
  new_optimizer :: 'o
  forward :: "'p \<Rightarrow> fl list \<Rightarrow> fl"
  criterion :: "(fl \<times> fl) list \<Rightarrow> fl"
  zero_grad :: "'g \<Rightarrow> 'g"
  backward :: "'p \<Rightarrow> sample list \<Rightarrow> 'g \<Rightarrow> 'g"
  optimizer_step :: "'o \<Rightarrow> 'p \<Rightarrow> 'g \<Rightarrow> 'o \<times> 'p"
  loader :: "nat \<Rightarrow> sample list \<Rightarrow> sample list list"
  scaler_fit :: "fl list \<Rightarrow> 'sc"
  transform :: "'sc \<Rightarrow> fl \<Rightarrow> fl"
  inverse_transform :: "'sc \<Rightarrow> fl \<Rightarrow> fl"

text \<open>
  \<^item> \<open>new_model\<close>, \<open>new_grad\<close>, \<open>new_optimizer\<close>: the freshly initialised network, its
    gradient buffers and \<open>optim.SGD(model.parameters(), ...)\<close>;
  \<^item> \<open>forward p x\<close>: \<open>model(x)\<close> on one flattened window (the output size is 1);
  \<^item> \<open>criterion\<close>: the loss of a batch of (output, target) pairs, read by \<open>loss.item()\<close>;
  \<^item> \<open>zero_grad\<close>: \<open>optimizer.zero_grad()\<close>;
  \<^item> \<open>backward p batch g\<close>: \<open>loss.backward()\<close> for the loss of \<open>batch\<close> under the parameters
    \<open>p\<close>, which adds the gradient to the buffers \<open>g\<close>;
  \<^item> \<open>optimizer_step\<close>: \<open>optimizer.step()\<close>, the only call that writes the parameters;
  \<^item> \<open>loader e data\<close>: the shuffled batches that the \<open>DataLoader\<close> yields in epoch \<open>e\<close>;
  \<^item> \<open>scaler_fit\<close>, \<open>transform\<close>, \<open>inverse_transform\<close>: \<open>StandardScaler\<close>, value by value.
\<close>

record ('p, 'g, 'o) trainer =
  params :: 'p
  grad :: 'g
  opt :: 'o

record config =
  lookback :: nat
  hidden_sizes :: "nat list"
  activation :: string
  loss_type :: string
  epochs :: nat

text \<open>
  The remaining keys of a configuration (\<open>learning_rate\<close>, \<open>momentum\<close>, \<open>batch_size\<close>) are
  only handed to the library constructors.  The constructor of \<open>FFNNModel\<close> reads
  \<open>hidden_sizes[0]\<close> and rejects an unknown activation; \<open>get_criterion\<close> rejects an unknown
  loss.
\<close>

definition FFNNModel_init :: "nat list \<Rightarrow> string \<Rightarrow> exn + unit" where
  "FFNNModel_init hs act =
     (if hs = [] then Inl IndexError
      else if act = ''sigmoid'' then Inr ()
      else if act = ''tanh'' then Inr ()
      else if act = ''linear'' then Inr ()
      else Inl ValueError)"

definition get_criterion :: "string \<Rightarrow> exn + unit" where
  "get_criterion lt =
     (if lt = ''SEL'' then Inr ()
      else if lt = ''AEL'' then Inr ()
      else Inl ValueError)"

section \<open>Rolling forecast engine: \<open>rolling_forecast_ffnn\<close>\<close>

subsection \<open>Initial training (lines 311 to 325)\<close>

text \<open>
  One batch: \<open>zero_grad\<close>, forward pass, loss, \<open>backward\<close>, \<open>optimizer.step()\<close>; the loss is
  added to \<open>epoch_loss\<close> and \<open>batch_count\<close> is incremented.
\<close>

definition train_batch ::
  "('p, 'g, 'o, 'sc) lib \<Rightarrow> ('p, 'g, 'o) trainer \<times> fl \<times> nat \<Rightarrow> sample list
     \<Rightarrow> ('p, 'g, 'o) trainer \<times> fl \<times> nat" where
  "train_batch L st batch =
     (case st of (tr, epoch_loss, batch_count) \<Rightarrow>
        let g0 = zero_grad L (grad tr);
            outputs = map (forward L (params tr)) (map fst batch);
            loss = criterion L (zip outputs (map snd batch));
            g1 = backward L (params tr) batch g0;
            stepped = optimizer_step L (opt tr) (params tr) g1
        in (\<lparr>params = snd stepped, grad = g1, opt = fst stepped\<rparr>,
            fl_add epoch_loss loss, batch_count + 1))"

text \<open>
  One epoch, and the loop over \<open>range(epochs)\<close>.  The second component collects the
  \<open>avg_epoch_loss\<close> that each epoch prints.
\<close>

definition train_epoch ::
  "('p, 'g, 'o, 'sc) lib \<Rightarrow> sample list \<Rightarrow> nat \<Rightarrow> ('p, 'g, 'o) trainer
     \<Rightarrow> ('p, 'g, 'o) trainer \<times> fl" where
  "train_epoch L dataset epoch tr =
     (case foldl (train_batch L) (tr, Fin 0, 0) (loader L epoch dataset) of
        (tr', epoch_loss, batch_count) \<Rightarrow>
          (tr', if batch_count > 0 then fl_div epoch_loss (Fin (real batch_count))
                else epoch_loss))"

fun initial_training ::
  "('p, 'g, 'o, 'sc) lib \<Rightarrow> sample list \<Rightarrow> nat list \<Rightarrow> ('p, 'g, 'o) trainer \<times> fl list
     \<Rightarrow> ('p, 'g, 'o) trainer \<times> fl list" where
  "initial_training L dataset [] acc = acc"
| "initial_training L dataset (epoch # rest) (tr, printed) =
     (case train_epoch L dataset epoch tr of
        (tr', avg_epoch_loss) \<Rightarrow>
          initial_training L dataset rest (tr', printed @ [avg_epoch_loss]))"

subsection \<open>One iteration of the rolling loop (lines 335 to 372)\<close>

text \<open>
  \<open>log_returns[i-lookback:i]\<close> is a slice (the loop index is never below \<open>lookback\<close>), and
  \<open>reshape(1, lookback)\<close> raises \<open>RuntimeError\<close> when the slice is shorter.  The incremental-update block
  calls \<open>zero_grad\<close> and \<open>backward\<close>; there is no \<open>optimizer.step()\<close> in it.
  \<open>original_prices[i]\<close> raises \<open>IndexError\<close> past the end of the array.
\<close>

definition forecast_step ::
  "('p, 'g, 'o, 'sc) lib \<Rightarrow> 'sc \<Rightarrow> nat \<Rightarrow> fl list \<Rightarrow> fl list
     \<Rightarrow> ('p, 'g, 'o) trainer \<times> fl list \<times> fl list \<Rightarrow> nat
     \<Rightarrow> exn + (('p, 'g, 'o) trainer \<times> fl list \<times> fl list)" where
  "forecast_step L scaler lb log_returns original_prices st i =
     (case st of (tr, all_true, all_predicted) \<Rightarrow>
        let current_sequence = drop (i - lb) (take i log_returns);
            scaled_sequence = map (transform L scaler) current_sequence
        in if length scaled_sequence \<noteq> lb then Inl RuntimeError
           else
             let pred_scaled = forward L (params tr) scaled_sequence;
                 predicted_log_return = inverse_transform L scaler pred_scaled;
                 tr' = (if Suc i < length log_returns
                        then tr\<lparr>grad :=
                               backward L (params tr)
                                 [(scaled_sequence, transform L scaler (log_returns ! i))]
                                 (zero_grad L (grad tr))\<rparr>
                        else tr)
             in if length original_prices \<le> i then Inl IndexError
                else
                  let last_actual_price = original_prices ! i;
                      predicted_price = fl_mul last_actual_price (fl_exp predicted_log_return)
                  in if Suc i < length original_prices
                     then Inr (tr', all_true @ [original_prices ! Suc i],
                               all_predicted @ [predicted_price])
                     else Inr (tr', all_true, all_predicted))"

fun rolling_loop ::
  "('p, 'g, 'o, 'sc) lib \<Rightarrow> 'sc \<Rightarrow> nat \<Rightarrow> fl list \<Rightarrow> fl list \<Rightarrow> nat list
     \<Rightarrow> ('p, 'g, 'o) trainer \<times> fl list \<times> fl list
     \<Rightarrow> exn + (('p, 'g, 'o) trainer \<times> fl list \<times> fl list)" where
  "rolling_loop L scaler lb log_returns original_prices [] st = Inr st"
| "rolling_loop L scaler lb log_returns original_prices (i # rest) st =
     (case forecast_step L scaler lb log_returns original_prices st i of
        Inl e \<Rightarrow> Inl e
      | Inr st' \<Rightarrow> rolling_loop L scaler lb log_returns original_prices rest st')"

subsection \<open>The engine\<close>

text \<open>
  The data frame is a list of rows (price, log-return), so both columns have the same
  length.  The module has no global \<open>feature_columns\<close> (the name is local to \<open>main\<close> and to
  \<open>load_and_prepare_data\<close>), so every test \<open>'feature_columns' in globals()\<close> is false: the
  input size is \<open>lookback\<close> and the training windows are built from the scaled log-returns.
  The description of the progress bar reads the global \<open>config\<close>, which \<open>main\<close> sets before
  each call; it is display only.  The engine returns the pair of arrays, or the single
  array \<open>np.zeros(pred_len)\<close>.
\<close>

datatype forecast = Arrays "fl list" "fl list" | Zeros "fl list"

definition rolling_forecast_ffnn ::
  "('p, 'g, 'o, 'sc) lib \<Rightarrow> (fl \<times> fl) list \<Rightarrow> nat \<Rightarrow> nat \<Rightarrow> config \<Rightarrow> int
     \<Rightarrow> exn + forecast" where
  "rolling_forecast_ffnn L data_df lb pred_len ffnn_config fixed_test_set_size =
     (let log_returns = map snd data_df;
          original_prices = map fst data_df;
          num_total_log_points = length log_returns;
          test_start_idx_log = int num_total_log_points - fixed_test_set_size
      in if test_start_idx_log < int lb then Inr (Arrays [] [])
         else
           case FFNNModel_init (hidden_sizes ffnn_config) (activation ffnn_config) of
             Inl e \<Rightarrow> Inl e
           | Inr _ \<Rightarrow>
          (case get_criterion (loss_type ffnn_config) of
             Inl e \<Rightarrow> Inl e
           | Inr _ \<Rightarrow>
          (let initial = take (nat test_start_idx_log) log_returns;
               scaler = scaler_fit L initial;
               scaled_log_returns = as_column (map (transform L scaler) initial)
           in case create_sequences scaled_log_returns lb of
                Inl e \<Rightarrow> Inl e
              | Inr (X_train_all, y_train_all) \<Rightarrow>
                  if length X_train_all = 0 then Inr (Zeros (replicate pred_len (Fin 0)))
                  else
                    let dataset = zip (map concat X_train_all) y_train_all;
                        tr0 = \<lparr>params = new_model L, grad = new_grad L,
                               opt = new_optimizer L\<rparr>;
                        trained = initial_training L dataset [0..<epochs ffnn_config]
                                    (tr0, [])
                    in (case rolling_loop L scaler lb log_returns original_prices
                               [nat test_start_idx_log..<Suc num_total_log_points - pred_len]
                               (fst trained, [], []) of
                          Inl e \<Rightarrow> Inl e
                        | Inr (tr, all_true, all_predicted) \<Rightarrow>
                            Inr (Arrays all_true all_predicted)))))"

section \<open>Evaluator: \<open>evaluate_model\<close>\<close>

text \<open>
  The numpy reductions that the evaluator uses.  \<open>np.max\<close> and \<open>np.min\<close> propagate \<open>nan\<close>
  and raise on an empty array; the evaluator calls them on a non-empty array only, and
  the model gives \<open>nan\<close> for the empty one.
\<close>

definition np_mean :: "fl list \<Rightarrow> fl" where
  "np_mean xs = fl_div (foldl fl_add (Fin 0) xs) (Fin (real (length xs)))"

definition fl_max :: "fl \<Rightarrow> fl \<Rightarrow> fl" where
  "fl_max a b = (if a = NaN \<or> b = NaN then NaN else if fl_less a b then b else a)"

definition fl_min :: "fl \<Rightarrow> fl \<Rightarrow> fl" where
  "fl_min a b = (if a = NaN \<or> b = NaN then NaN else if fl_less b a then b else a)"

fun np_max :: "fl list \<Rightarrow> fl" where
  "np_max [] = NaN"
| "np_max (x # xs) = foldl fl_max x xs"

fun np_min :: "fl list \<Rightarrow> fl" where
  "np_min [] = NaN"
| "np_min (x # xs) = foldl fl_min x xs"

fun nan_to_num :: "fl \<Rightarrow> fl \<Rightarrow> fl \<Rightarrow> fl \<Rightarrow> fl" where
  "nan_to_num nan posinf neginf NaN = nan"
| "nan_to_num nan posinf neginf PInf = posinf"
| "nan_to_num nan posinf neginf NInf = neginf"
| "nan_to_num nan posinf neginf (Fin a) = Fin a"

text \<open>
  \<open>np.allclose(y, 0)\<close> with the default tolerances \<open>rtol = 1e-5\<close>, \<open>atol = 1e-8\<close>: every
  entry is finite and \<open>|y - 0| \<le> atol + rtol * |0|\<close>.
\<close>

fun isclose_zero :: "fl \<Rightarrow> bool" where
  "isclose_zero (Fin a) = (\<bar>a\<bar> \<le> 1 / 100000000)"
| "isclose_zero _ = False"

definition allclose_zero :: "fl list \<Rightarrow> bool" where
  "allclose_zero ys = list_all isclose_zero ys"

text \<open>
  The three fill values of lines 396 to 403, and the substitution of lines 385 to 408,
  which is applied only when some prediction is not finite.
\<close>

definition fill_value_for_nan :: "fl list \<Rightarrow> fl" where
  "fill_value_for_nan y_true =
     (if list_all isfinite y_true \<and> length y_true > 0 then np_mean y_true else Fin 0)"

definition fill_value_for_posinf :: "fl list \<Rightarrow> fl" where
  "fill_value_for_posinf y_true =
     (if list_all isfinite y_true \<and> length y_true > 0
      then (if fl_less (Fin 0) (np_max y_true) then fl_mul (np_max y_true) (Fin 2)
            else Fin 1000000000000)
      else Fin 1000000000000)"

definition fill_value_for_neginf :: "fl list \<Rightarrow> fl" where
  "fill_value_for_neginf y_true =
     (if list_all isfinite y_true \<and> length y_true > 0
      then (if fl_less (np_min y_true) (Fin 0) then fl_mul (np_min y_true) (Fin 2)
            else Fin (- 1000000000000))
      else Fin (- 1000000000000))"

definition fill_predictions :: "fl list \<Rightarrow> fl list \<Rightarrow> fl list" where
  "fill_predictions y_true y_pred =
     (if \<not> list_all isfinite y_pred
      then map (nan_to_num (fill_value_for_nan y_true) (fill_value_for_posinf y_true)
                  (fill_value_for_neginf y_true)) y_pred
      else y_pred)"

text \<open>
  MAPE, lines 418 to 430: the mask keeps the positions with \<open>|y_true| > 1e-7\<close>; the last
  test replaces any value that is not finite by \<open>+inf\<close>.
\<close>

definition mape_mask :: "fl \<Rightarrow> bool" where
  "mape_mask t = fl_less (Fin (1 / 10000000)) (fl_abs t)"

definition masked :: "fl list \<Rightarrow> fl list \<Rightarrow> (fl \<times> fl) list" where
  "masked y_true y_pred = filter (\<lambda>(t, p). mape_mask t) (zip y_true y_pred)"

definition mape_raw :: "fl list \<Rightarrow> fl list \<Rightarrow> fl" where
  "mape_raw y_true y_pred =
     (if length (filter mape_mask y_true) = 0
      then (if allclose_zero y_pred then Fin 0 else PInf)
      else fl_mul
             (np_mean (map (\<lambda>(t, p). fl_abs (fl_div (fl_sub t p) t)) (masked y_true y_pred)))
             (Fin 100))"

definition mape_of :: "fl list \<Rightarrow> fl list \<Rightarrow> fl" where
  "mape_of y_true y_pred =
     (let mape = mape_raw y_true y_pred in if \<not> isfinite mape then PInf else mape)"

text \<open>
  \<open>mean_squared_error\<close>, \<open>mean_absolute_error\<close> and \<open>r2_score\<close> come from scikit-learn and are
  parameters; they validate their input and may raise.
\<close>

record sklearn =
  mean_squared_error :: "fl list \<Rightarrow> fl list \<Rightarrow> exn + fl"
  mean_absolute_error :: "fl list \<Rightarrow> fl list \<Rightarrow> exn + fl"
  r2_score :: "fl list \<Rightarrow> fl list \<Rightarrow> exn + fl"

record metrics =
  MSE :: fl
  RMSE :: fl
  MAE :: fl
  MAPE :: fl
  R2 :: fl

definition worst_metrics :: metrics where
  "worst_metrics = \<lparr>MSE = PInf, RMSE = PInf, MAE = PInf, MAPE = PInf, R2 = NInf\<rparr>"

definition evaluate_model :: "sklearn \<Rightarrow> fl list \<Rightarrow> fl list \<Rightarrow> exn + metrics" where
  "evaluate_model sk y_true_prices y_pred_prices =
     (if length y_true_prices = 0 \<or> length y_pred_prices = 0
         \<or> length y_true_prices \<noteq> length y_pred_prices
      then Inr worst_metrics
      else
        let y_pred = fill_predictions y_true_prices y_pred_prices
        in case mean_squared_error sk y_true_prices y_pred of
             Inl e \<Rightarrow> Inl e
           | Inr mse \<Rightarrow>
          (case mean_absolute_error sk y_true_prices y_pred of
             Inl e \<Rightarrow> Inl e
           | Inr mae \<Rightarrow>
          (case r2_score sk y_true_prices y_pred of
             Inl e \<Rightarrow> Inl e
           | Inr r2 \<Rightarrow>
               Inr \<lparr>MSE = mse, RMSE = fl_sqrt mse, MAE = mae,
                    MAPE = mape_of y_true_prices y_pred, R2 = r2\<rparr>)))"

section \<open>The grid loop of \<open>main\<close> (lines 679 to 742)\<close>

text \<open>
  \<open>main\<close> calls the engine with \<open>pred_len = 1\<close> and unpacks the result into two names.
  Unpacking the single array \<open>np.zeros(pred_len)\<close> raises \<open>ValueError\<close> unless it has two
  entries, in which case the two names hold numbers and \<open>len\<close> of a number raises
  \<open>TypeError\<close>.  No exception is caught here, so one ends the whole run.
\<close>

record entry =
  entry_metrics :: metrics
  true_values :: "fl list"
  predictions :: "fl list"

definition run_configuration ::
  "('p, 'g, 'o, 'sc) lib \<Rightarrow> sklearn \<Rightarrow> (fl \<times> fl) list \<Rightarrow> config \<Rightarrow> int \<Rightarrow> exn + entry" where
  "run_configuration L sk data_df cfg fixed_test_set_size =
     (case rolling_forecast_ffnn L data_df (lookback cfg) 1 cfg fixed_test_set_size of
        Inl e \<Rightarrow> Inl e
      | Inr (Zeros z) \<Rightarrow> Inl (if length z = 2 then TypeError else ValueError)
      | Inr (Arrays true_prices pred_prices) \<Rightarrow>
          if length true_prices > 0 \<and> length pred_prices > 0
             \<and> length true_prices = length pred_prices
          then (case evaluate_model sk true_prices pred_prices of
                  Inl e \<Rightarrow> Inl e
                | Inr m \<Rightarrow>
                    Inr \<lparr>entry_metrics = m, true_values = true_prices,
                         predictions = pred_prices\<rparr>)
          else (case evaluate_model sk [] [] of
                  Inl e \<Rightarrow> Inl e
                | Inr m \<Rightarrow> Inr \<lparr>entry_metrics = m, true_values = [], predictions = []\<rparr>))"

text \<open>
  The loop over the configurations fills the dictionary \<open>all_ffnn_run_results\<close>, keyed by
  the configuration label (\<open>label\<close> stands for the formatted string); each configuration
  builds its own network (\<open>lib_of\<close>).
\<close>

fun run_grid ::
  "(config \<Rightarrow> ('p, 'g, 'o, 'sc) lib) \<Rightarrow> sklearn \<Rightarrow> (config \<Rightarrow> 'k) \<Rightarrow> (fl \<times> fl) list \<Rightarrow> int
     \<Rightarrow> config list \<Rightarrow> ('k \<rightharpoonup> entry) \<Rightarrow> exn + ('k \<rightharpoonup> entry)" where
  "run_grid lib_of sk label data_df T [] results = Inr results"
| "run_grid lib_of sk label data_df T (cfg # rest) results =
     (case run_configuration (lib_of cfg) sk data_df cfg T of
        Inl e \<Rightarrow> Inl e
      | Inr ent \<Rightarrow> run_grid lib_of sk label data_df T rest (results(label cfg \<mapsto> ent)))"

text \<open>
  The assignment \<open>true_prices, pred_prices = rolling_forecast_ffnn(...)\<close> of line 690 on
  its own: a pair of arrays is taken apart; a single array is iterated, which gives two
  numbers when it has two entries and raises \<open>ValueError\<close> otherwise.
\<close>

datatype unpacked = Two_arrays "fl list" "fl list" | Two_numbers fl fl

fun unpack_two :: "forecast \<Rightarrow> exn + unpacked" where
  "unpack_two (Arrays t p) = Inr (Two_arrays t p)"
| "unpack_two (Zeros [a, b]) = Inr (Two_numbers a b)"
| "unpack_two (Zeros _) = Inl ValueError"

text \<open>
  The grid of \<open>main\<close> (lines 646 to 649) skips a lookback when
  \<open>num_train_points_for_first_window < lb + 1\<close>, where the first number is the length of
  the frame minus the test-set size.
\<close>

definition main_keeps_lookback :: "nat \<Rightarrow> int \<Rightarrow> nat \<Rightarrow> bool" where
  "main_keeps_lookback num_total_points fixed_test_set_size lb =
     (\<not> int num_total_points - fixed_test_set_size < int lb + 1)"

section \<open>Reference definitions for the evaluator\<close>

text \<open>
  An instance of the three scikit-learn metrics, used to run the evaluator on concrete
  inputs: the textbook formulas on finite input, \<open>ValueError\<close> on any other.
\<close>

definition squared_errors :: "fl list \<Rightarrow> fl list \<Rightarrow> fl list" where
  "squared_errors y_true y_pred =
     map (\<lambda>(t, p). fl_mul (fl_sub t p) (fl_sub t p)) (zip y_true y_pred)"

definition textbook_metrics :: sklearn where
  "textbook_metrics =
     \<lparr>mean_squared_error = (\<lambda>y_true y_pred.
        if list_all isfinite y_true \<and> list_all isfinite y_pred
        then Inr (np_mean (squared_errors y_true y_pred))
        else Inl ValueError),
      mean_absolute_error = (\<lambda>y_true y_pred.
        if list_all isfinite y_true \<and> list_all isfinite y_pred
        then Inr (np_mean (map (\<lambda>(t, p). fl_abs (fl_sub t p)) (zip y_true y_pred)))
        else Inl ValueError),
      r2_score = (\<lambda>y_true y_pred.
        if list_all isfinite y_true \<and> list_all isfinite y_pred
        then Inr (fl_sub (Fin 1)
               (fl_div (foldl fl_add (Fin 0) (squared_errors y_true y_pred))
                  (foldl fl_add (Fin 0)
                     (squared_errors y_true (map (\<lambda>_. np_mean y_true) y_true)))))
        else Inl ValueError)\<rparr>"

text \<open>
  The substitution as the specification words it, for finite true values \<open>ts\<close>: the mean
  of the true values for \<open>nan\<close>; twice their maximum, or \<open>1e12\<close> if the maximum is not
  positive, for \<open>+inf\<close>; twice their minimum, or \<open>-1e12\<close> if the minimum is not negative,
  for \<open>-inf\<close>.
\<close>

fun spec_substitute :: "real list \<Rightarrow> fl \<Rightarrow> fl" where
  "spec_substitute ts NaN = Fin (sum_list ts / real (length ts))"
| "spec_substitute ts PInf =
     Fin (if 0 < Max (set ts) then 2 * Max (set ts) else 1000000000000)"
| "spec_substitute ts NInf =
     Fin (if Min (set ts) < 0 then 2 * Min (set ts) else - 1000000000000)"
| "spec_substitute ts (Fin a) = Fin a"

text \<open>
  MAPE as the specification words it, on finite values: a position is excluded when its
  true value has magnitude at most \<open>1e-7\<close>, a prediction is approximately zero within
  \<open>1e-8\<close>, and the percentage error is averaged over the positions kept.
\<close>

definition mape_excluded :: "real \<Rightarrow> bool" where
  "mape_excluded t = (\<bar>t\<bar> \<le> 1 / 10000000)"

definition near_zero :: "real \<Rightarrow> bool" where
  "near_zero p = (\<bar>p\<bar> \<le> 1 / 100000000)"

definition spec_kept :: "real list \<Rightarrow> real list \<Rightarrow> (real \<times> real) list" where
  "spec_kept ts ps = filter (\<lambda>(t, p). \<not> mape_excluded t) (zip ts ps)"

definition spec_mape :: "real list \<Rightarrow> real list \<Rightarrow> real" where
  "spec_mape ts ps =
     100 * (sum_list (map (\<lambda>(t, p). \<bar>(t - p) / t\<bar>) (spec_kept ts ps))
            / real (length (spec_kept ts ps)))"

section \<open>Auxiliary definitions for the engine\<close>

text \<open>
  The parts of one iteration of the rolling loop, named so that its result can be
  written down: the scaled window of the log-returns at the indices \<open>i - lookback, ...,
  i - 1\<close>, the predicted price, and the trainer after the incremental-update block.
\<close>

definition window :: "('p, 'g, 'o, 'sc) lib \<Rightarrow> 'sc \<Rightarrow> nat \<Rightarrow> fl list \<Rightarrow> nat \<Rightarrow> fl list" where
  "window L sc lb lrs i = map (transform L sc) (map ((!) lrs) [i - lb..<i])"

definition step_prediction ::
  "('p, 'g, 'o, 'sc) lib \<Rightarrow> 'sc \<Rightarrow> nat \<Rightarrow> fl list \<Rightarrow> fl list \<Rightarrow> 'p \<Rightarrow> nat \<Rightarrow> fl" where
  "step_prediction L sc lb lrs prices p i =
     fl_mul (prices ! i) (fl_exp (inverse_transform L sc (forward L p (window L sc lb lrs i))))"

definition step_trainer ::
  "('p, 'g, 'o, 'sc) lib \<Rightarrow> 'sc \<Rightarrow> nat \<Rightarrow> fl list \<Rightarrow> ('p, 'g, 'o) trainer \<Rightarrow> nat
     \<Rightarrow> ('p, 'g, 'o) trainer" where
  "step_trainer L sc lb lrs tr i =
     (if Suc i < length lrs
      then tr\<lparr>grad := backward L (params tr)
                         [(window L sc lb lrs i, transform L sc (lrs ! i))]
                         (zero_grad L (grad tr))\<rparr>
      else tr)"

text \<open>
  A configuration that the constructors accept; the start of the test window; and the
  objects that phase 1 of the engine builds: the scaler fitted on the log-returns before
  the test window, the training samples (window, target) cut from the scaled prefix, the
  trainer that the initial training leaves, and the losses it prints.
\<close>

definition supported :: "config \<Rightarrow> bool" where
  "supported cfg =
     (hidden_sizes cfg \<noteq> []
      \<and> activation cfg \<in> {''sigmoid'', ''tanh'', ''linear''}
      \<and> loss_type cfg \<in> {''SEL'', ''AEL''})"

definition test_start :: "(fl \<times> fl) list \<Rightarrow> int \<Rightarrow> nat" where
  "test_start df T = nat (int (length df) - T)"

definition phase1_scaler :: "('p, 'g, 'o, 'sc) lib \<Rightarrow> (fl \<times> fl) list \<Rightarrow> int \<Rightarrow> 'sc" where
  "phase1_scaler L df T = scaler_fit L (take (test_start df T) (map snd df))"

definition training_set ::
  "('p, 'g, 'o, 'sc) lib \<Rightarrow> (fl \<times> fl) list \<Rightarrow> nat \<Rightarrow> int \<Rightarrow> sample list" where
  "training_set L df lb T =
     (let scaled = map (transform L (phase1_scaler L df T))
                     (take (test_start df T) (map snd df))
      in map (\<lambda>i. (take lb (drop i scaled), scaled ! (i + lb))) [0..<length scaled - lb])"

definition phase1_trainer ::
  "('p, 'g, 'o, 'sc) lib \<Rightarrow> (fl \<times> fl) list \<Rightarrow> nat \<Rightarrow> config \<Rightarrow> int \<Rightarrow> ('p, 'g, 'o) trainer" where
  "phase1_trainer L df lb cfg T =
     fst (initial_training L (training_set L df lb T) [0..<epochs cfg]
            (\<lparr>params = new_model L, grad = new_grad L, opt = new_optimizer L\<rparr>, []))"

definition phase1_losses ::
  "('p, 'g, 'o, 'sc) lib \<Rightarrow> (fl \<times> fl) list \<Rightarrow> nat \<Rightarrow> config \<Rightarrow> int \<Rightarrow> fl list" where
  "phase1_losses L df lb cfg T =
     snd (initial_training L (training_set L df lb T) [0..<epochs cfg]
            (\<lparr>params = new_model L, grad = new_grad L, opt = new_optimizer L\<rparr>, []))"

text \<open>
  What one batch of the initial training does to the trainer, without the loss
  bookkeeping: the gradient of the batch, as \<open>backward\<close> leaves it, goes to
  \<open>optimizer.step()\<close>.
\<close>

definition sgd_update ::
  "('p, 'g, 'o, 'sc) lib \<Rightarrow> ('p, 'g, 'o) trainer \<Rightarrow> sample list \<Rightarrow> ('p, 'g, 'o) trainer" where
  "sgd_update L tr batch =
     (let g = backward L (params tr) batch (zero_grad L (grad tr));
          stepped = optimizer_step L (opt tr) (params tr) g
      in \<lparr>params = snd stepped, grad = g, opt = fst stepped\<rparr>)"

text \<open>
  Early stopping as the specification words it, on the list of the mean losses of the
  epochs that ran: an epoch improves when its loss is below \<open>+inf\<close> and below the loss of
  every earlier epoch, and training stops early when \<open>patience\<close> consecutive epochs
  without improvement are never followed by another epoch.
\<close>

definition spec_improved :: "fl list \<Rightarrow> nat \<Rightarrow> bool" where
  "spec_improved losses j = list_all (\<lambda>l. fl_less (losses ! j) l) (PInf # take j losses)"

definition spec_stops_early :: "nat \<Rightarrow> fl list \<Rightarrow> bool" where
  "spec_stops_early patience losses =
     list_all (\<lambda>e. list_ex (spec_improved losses) [Suc e - patience..<Suc e])
       [patience - 1..<length losses - 1]"

text \<open>
  The entry that \<open>main\<close> records for a configuration without usable output.
\<close>

definition failed_entry :: entry where
  "failed_entry =
     \<lparr>entry_metrics = \<lparr>MSE = PInf, RMSE = PInf, MAE = PInf, MAPE = PInf, R2 = NInf\<rparr>,
      true_values = [], predictions = []\<rparr>"

section \<open>A small instance\<close>

text \<open>
  A network of one weight \<open>w\<close> that predicts \<open>w\<close> whatever the window, with the mean squared
  error as loss (its gradient is the mean of \<open>2 (w - y)\<close>), plain gradient descent with
  learning rate 1, one batch per epoch, and a scaler that centres.  The frame has six rows:
  the price doubles at every step, so every log-return is \<open>ln 2\<close>.  With lookback 1 and a
  test window of 3 rows the scaled training targets are 0, the loss of every epoch is 1
  and every step flips the sign of the weight.
\<close>

fun fl_val :: "fl \<Rightarrow> real" where
  "fl_val (Fin a) = a"
| "fl_val _ = 0"

definition demo_lib :: "(real, real, real, fl) lib" where
  "demo_lib =
     \<lparr>new_model = 1, new_grad = 0, new_optimizer = 1,
      forward = (\<lambda>w x. Fin w),
      criterion = (\<lambda>pairs. np_mean (map (\<lambda>(out, y). fl_mul (fl_sub out y) (fl_sub out y)) pairs)),
      zero_grad = (\<lambda>g. 0),
      backward = (\<lambda>w batch g.
        g + sum_list (map (\<lambda>(x, y). 2 * (w - fl_val y)) batch) / real (length batch)),
      optimizer_step = (\<lambda>lr w g. (lr, w - lr * g)),
      loader = (\<lambda>epoch dataset. [dataset]),
      scaler_fit = np_mean,
      transform = (\<lambda>m x. fl_sub x m),
      inverse_transform = (\<lambda>m y. fl_add y m)\<rparr>"

definition demo_df :: "(fl \<times> fl) list" where
  "demo_df = [(Fin 2, Fin (ln 2)), (Fin 4, Fin (ln 2)), (Fin 8, Fin (ln 2)),
              (Fin 16, Fin (ln 2)), (Fin 32, Fin (ln 2)), (Fin 64, Fin (ln 2))]"

definition demo_config :: "nat \<Rightarrow> config" where
  "demo_config n =
     \<lparr>lookback = 1, hidden_sizes = [8], activation = ''tanh'', loss_type = ''SEL'',
      epochs = n\<rparr>"

section \<open>Properties of the sequence builder\<close>

lemma seq_loop_collect:
  "(\<forall>i \<in> set idx. data ! (i + lb) \<noteq> []) \<Longrightarrow>
   seq_loop data lb idx (fs, ts) =
     Inr (fs @ map (\<lambda>i. take lb (drop i data)) idx, ts @ map (\<lambda>i. hd (data ! (i + lb))) idx)"
proof (induction idx arbitrary: fs ts)
  case Nil
  then show ?case by simp
next
  case (Cons i rest)
  then obtain x xs where row: "data ! (i + lb) = x # xs"
    by (cases "data ! (i + lb)") auto
  with Cons show ?case by simp
qed

lemma take_drop_window:
  "i + lb \<le> length data \<Longrightarrow> take lb (drop i data) = map ((!) data) [i..<i + lb]"
  by (rule nth_equalityI) auto

lemma create_sequences_value:
  assumes "\<forall>row \<in> set data. row \<noteq> []"
  shows "create_sequences data lb =
           Inr (map (\<lambda>i. take lb (drop i data)) [0..<length data - lb],
                map (\<lambda>i. hd (data ! (i + lb))) [0..<length data - lb])"
proof -
  have "\<forall>i \<in> set [0..<length data - lb]. data ! (i + lb) \<noteq> []"
    using assms by (auto simp: all_set_conv_all_nth)
  from seq_loop_collect [OF this, of "[]" "[]"] show ?thesis
    by (simp add: create_sequences_def)
qed

text \<open>
  C9.  On a series of \<open>n\<close> rows, each with a first column, \<open>create_sequences\<close> returns
  \<open>n - lookback\<close> windows and as many targets, none when \<open>n \<le> lookback\<close>.  Window \<open>i\<close> is
  the rows at the indices \<open>i, ..., i + lookback - 1\<close>, and target \<open>i\<close> is the first column
  of row \<open>i + lookback\<close>, an index above every index of the window.
\<close>

theorem create_sequences_windows:
  assumes "\<forall>row \<in> set data. row \<noteq> []"
  shows "\<exists>ws ts. create_sequences data lb = Inr (ws, ts)
           \<and> length ws = length data - lb \<and> length ts = length data - lb
           \<and> (length data \<le> lb \<longrightarrow> ws = [] \<and> ts = [])
           \<and> (\<forall>i < length data - lb.
                 ws ! i = map ((!) data) [i..<i + lb]
               \<and> ts ! i = hd (data ! (i + lb))
               \<and> (\<forall>j \<in> set [i..<i + lb]. j < i + lb))"
  using create_sequences_value [OF assms, of lb]
  by (auto simp: take_drop_window)

theorem create_sequences_windows_witness:
  "list_all (\<lambda>row. row \<noteq> []) [[1::nat, 10], [2, 20], [3, 30], [4, 40]]
   \<and> create_sequences [[1::nat, 10], [2, 20], [3, 30], [4, 40]] 2
       = Inr ([[[1, 10], [2, 20]], [[2, 20], [3, 30]]], [3, 4])"
  using create_sequences_windows [of "[[1::nat, 10], [2, 20], [3, 30], [4, 40]]" 2]
  by (simp add: create_sequences_def)

section \<open>Properties of the evaluator\<close>

lemma foldl_add_Fin: "foldl fl_add (Fin a) (map Fin xs) = Fin (a + sum_list xs)"
  by (induction xs arbitrary: a) (simp_all add: add.assoc)

lemma np_mean_Fin:
  "xs \<noteq> [] \<Longrightarrow> np_mean (map Fin xs) = Fin (sum_list xs / real (length xs))"
  by (simp add: np_mean_def foldl_add_Fin)

lemma foldl_max_Fin: "foldl fl_max (Fin a) (map Fin xs) = Fin (Max (set (a # xs)))"
proof (induction xs arbitrary: a)
  case Nil
  then show ?case by simp
next
  case (Cons x xs)
  have "fl_max (Fin a) (Fin x) = Fin (max a x)"
    by (simp add: fl_max_def max_def)
  moreover have "Max (set (max a x # xs)) = Max (set (a # x # xs))"
    by (cases "xs = []") (simp_all add: max.assoc)
  ultimately show ?case using Cons.IH [of "max a x"] by simp
qed

lemma foldl_min_Fin: "foldl fl_min (Fin a) (map Fin xs) = Fin (Min (set (a # xs)))"
proof (induction xs arbitrary: a)
  case Nil
  then show ?case by simp
next
  case (Cons x xs)
  have "fl_min (Fin a) (Fin x) = Fin (min a x)"
    by (auto simp add: fl_min_def min_def)
  moreover have "Min (set (min a x # xs)) = Min (set (a # x # xs))"
    by (cases "xs = []") (simp_all add: min.assoc)
  ultimately show ?case using Cons.IH [of "min a x"] by simp
qed

lemma np_max_Fin: "ts \<noteq> [] \<Longrightarrow> np_max (map Fin ts) = Fin (Max (set ts))"
  by (cases ts) (simp_all add: foldl_max_Fin del: set_simps)

lemma np_min_Fin: "ts \<noteq> [] \<Longrightarrow> np_min (map Fin ts) = Fin (Min (set ts))"
  by (cases ts) (simp_all add: foldl_min_Fin del: set_simps)

lemma all_finite_map_Fin: "list_all isfinite (map Fin ts)"
  by (induction ts) simp_all

lemma finite_as_reals: "list_all isfinite ys \<Longrightarrow> \<exists>rs. ys = map Fin rs"
proof (induction ys)
  case Nil
  then show ?case by simp
next
  case (Cons y ys)
  then obtain rs where "ys = map Fin rs" by auto
  moreover from Cons.prems obtain a where "y = Fin a" by (cases y) auto
  ultimately have "y # ys = map Fin (a # rs)" by simp
  then show ?case by (rule exI)
qed

lemma fill_values_Fin:
  assumes "ts \<noteq> []"
  shows "nan_to_num (fill_value_for_nan (map Fin ts)) (fill_value_for_posinf (map Fin ts))
           (fill_value_for_neginf (map Fin ts)) p = spec_substitute ts p"
  using assms
  by (cases p)
     (simp_all add: fill_value_for_nan_def fill_value_for_posinf_def fill_value_for_neginf_def
        all_finite_map_Fin np_mean_Fin np_max_Fin np_min_Fin mult.commute)

lemma spec_substitute_finite: "isfinite (spec_substitute ts p)"
  by (cases p) simp_all

lemma fill_predictions_Fin:
  assumes "ts \<noteq> []" and "\<not> list_all isfinite y_pred"
  shows "fill_predictions (map Fin ts) y_pred = map (spec_substitute ts) y_pred"
  using assms by (simp add: fill_predictions_def fill_values_Fin)

lemma fill_predictions_id:
  "list_all isfinite y_pred \<Longrightarrow> fill_predictions y_true y_pred = y_pred"
  by (simp add: fill_predictions_def)

text \<open>
  C6.  When one of the two sequences is empty or their lengths differ, the evaluator
  returns, without raising, MSE, RMSE, MAE and MAPE equal to \<open>+inf\<close> and R2 equal to
  \<open>-inf\<close>.
\<close>

theorem evaluate_model_degenerate:
  assumes "length y_true = 0 \<or> length y_pred = 0 \<or> length y_true \<noteq> length y_pred"
  shows "evaluate_model sk y_true y_pred =
           Inr \<lparr>MSE = PInf, RMSE = PInf, MAE = PInf, MAPE = PInf, R2 = NInf\<rparr>"
  using assms by (auto simp: evaluate_model_def worst_metrics_def)

theorem evaluate_model_degenerate_witness:
  "evaluate_model textbook_metrics [] [] =
     Inr \<lparr>MSE = PInf, RMSE = PInf, MAE = PInf, MAPE = PInf, R2 = NInf\<rparr>
   \<and> evaluate_model textbook_metrics [Fin 1, Fin 2] [Fin 1] =
     Inr \<lparr>MSE = PInf, RMSE = PInf, MAE = PInf, MAPE = PInf, R2 = NInf\<rparr>"
  using evaluate_model_degenerate [of "[]" "[]" textbook_metrics]
    evaluate_model_degenerate [of "[Fin 1, Fin 2]" "[Fin 1]" textbook_metrics]
  by simp

text \<open>
  C7.  For finite true values \<open>ts\<close> and predictions of the same length of which some are
  not finite, the evaluator replaces each prediction as the specification says
  (\<open>spec_substitute\<close>) and its result is the one it gives on the substituted predictions,
  which are all finite, so that no further substitution takes place there.
\<close>

theorem evaluate_model_substitutes:
  assumes "length y_pred = length ts" and "ts \<noteq> []" and "\<not> list_all isfinite y_pred"
  shows "evaluate_model sk (map Fin ts) y_pred =
           evaluate_model sk (map Fin ts) (map (spec_substitute ts) y_pred)
         \<and> list_all isfinite (map (spec_substitute ts) y_pred)
         \<and> fill_predictions (map Fin ts) y_pred = map (spec_substitute ts) y_pred"
proof -
  have fin: "list_all isfinite (map (spec_substitute ts) y_pred)"
    by (simp add: list_all_iff spec_substitute_finite)
  have "fill_predictions (map Fin ts) (map (spec_substitute ts) y_pred)
          = map (spec_substitute ts) y_pred"
    using fin by (rule fill_predictions_id)
  with assms fin show ?thesis
    by (simp add: evaluate_model_def fill_predictions_Fin)
qed

theorem evaluate_model_substitutes_witness:
  "evaluate_model textbook_metrics [Fin 1, Fin 3, Fin 2] [NaN, PInf, NInf] =
     evaluate_model textbook_metrics [Fin 1, Fin 3, Fin 2] [Fin 2, Fin 6, Fin (- 1000000000000)]
   \<and> evaluate_model textbook_metrics [Fin 1, Fin 3] [NaN, PInf] =
       Inr \<lparr>MSE = Fin 5, RMSE = Fin (sqrt 5), MAE = Fin 2, MAPE = Fin 100, R2 = Fin (- 4)\<rparr>"
  using evaluate_model_substitutes [of "[NaN, PInf, NInf]" "[1, 3, 2]" textbook_metrics]
    evaluate_model_substitutes [of "[NaN, PInf]" "[1, 3]" textbook_metrics]
  by (simp add: evaluate_model_def fill_predictions_def textbook_metrics_def squared_errors_def
      np_mean_def fl_sub_def mape_of_def mape_raw_def masked_def mape_mask_def)


lemma mape_of_not_nan: "isfinite (mape_of y_true y_pred) \<or> mape_of y_true y_pred = PInf"
  by (simp add: mape_of_def Let_def)

lemma evaluate_model_MAPE:
  assumes "evaluate_model sk y_true y_pred = Inr m"
  shows "MAPE m = (if length y_true = 0 \<or> length y_pred = 0 \<or> length y_true \<noteq> length y_pred
                   then PInf else mape_of y_true (fill_predictions y_true y_pred))"
  using assms
  by (auto simp: evaluate_model_def worst_metrics_def Let_def split: if_splits sum.splits)

lemma length_fill_predictions: "length (fill_predictions y_true y_pred) = length y_pred"
  by (simp add: fill_predictions_def)

lemma mape_mask_Fin: "mape_mask (Fin t) = (\<not> mape_excluded t)"
  by (simp add: mape_mask_def mape_excluded_def not_le)

lemma isclose_zero_Fin: "isclose_zero (Fin p) = near_zero p"
  by (simp add: near_zero_def)

lemma masked_Fin:
  "masked (map Fin ts) (map Fin ps) = map (\<lambda>(t, p). (Fin t, Fin p)) (spec_kept ts ps)"
proof -
  have "zip (map Fin ts) (map Fin ps) = map (\<lambda>(t, p). (Fin t, Fin p)) (zip ts ps)"
    by (simp add: zip_map_map)
  then show ?thesis
    by (simp add: masked_def spec_kept_def filter_map comp_def case_prod_unfold mape_mask_Fin)
qed

lemma ape_Fin:
  assumes "\<not> mape_excluded t"
  shows "fl_abs (fl_div (fl_sub (Fin t) (Fin p)) (Fin t)) = Fin \<bar>(t - p) / t\<bar>"
proof -
  from assms have "t \<noteq> 0" by (auto simp: mape_excluded_def)
  then show ?thesis by (simp add: fl_sub_def)
qed

lemma ape_list_Fin:
  "map (\<lambda>(t, p). fl_abs (fl_div (fl_sub t p) t)) (masked (map Fin ts) (map Fin ps))
     = map Fin (map (\<lambda>(t, p). \<bar>(t - p) / t\<bar>) (spec_kept ts ps))"
proof -
  have "\<forall>x \<in> set (spec_kept ts ps). \<not> mape_excluded (fst x)"
    by (auto simp: spec_kept_def)
  then show ?thesis
    by (simp add: masked_Fin comp_def case_prod_unfold ape_Fin)
qed

lemma mask_count_Fin:
  "(length (filter mape_mask (map Fin ts)) = 0) = (\<forall>t \<in> set ts. mape_excluded t)"
  by (simp add: filter_empty_conv mape_mask_Fin)

lemma spec_kept_empty:
  assumes "length ps = length ts"
  shows "(spec_kept ts ps = []) = (\<forall>t \<in> set ts. mape_excluded t)"
proof -
  have "set ts = fst ` set (zip ts ps)"
    using assms by (metis map_fst_zip set_map)
  then show ?thesis
    by (auto simp: spec_kept_def filter_empty_conv)
qed

lemma allclose_zero_Fin: "allclose_zero (map Fin ps) = (\<forall>p \<in> set ps. near_zero p)"
  by (simp add: allclose_zero_def list_all_iff near_zero_def)

lemma mape_of_Fin:
  assumes "length ps = length ts"
  shows "mape_of (map Fin ts) (map Fin ps) =
           (if \<forall>t \<in> set ts. mape_excluded t
            then (if \<forall>p \<in> set ps. near_zero p then Fin 0 else PInf)
            else Fin (spec_mape ts ps))"
proof (cases "\<forall>t \<in> set ts. mape_excluded t")
  case True
  then have "mape_raw (map Fin ts) (map Fin ps) =
      (if \<forall>p \<in> set ps. near_zero p then Fin 0 else PInf)"
    unfolding mape_raw_def mask_count_Fin allclose_zero_Fin by simp
  with True show ?thesis
    by (simp add: mape_of_def)
next
  case False
  with assms have ne: "spec_kept ts ps \<noteq> []"
    by (simp add: spec_kept_empty)
  then have "map (\<lambda>(t, p). \<bar>(t - p) / t\<bar>) (spec_kept ts ps) \<noteq> []"
    by simp
  from np_mean_Fin [OF this]
  have mean: "np_mean (map Fin (map (\<lambda>(t, p). \<bar>(t - p) / t\<bar>) (spec_kept ts ps)))
      = Fin (sum_list (map (\<lambda>(t, p). \<bar>(t - p) / t\<bar>) (spec_kept ts ps))
             / real (length (spec_kept ts ps)))"
    by (simp only: length_map)
  have "mape_raw (map Fin ts) (map Fin ps) =
      fl_mul (np_mean (map Fin (map (\<lambda>(t, p). \<bar>(t - p) / t\<bar>) (spec_kept ts ps)))) (Fin 100)"
    using False unfolding mape_raw_def mask_count_Fin ape_list_Fin by (simp only: if_False)
  then have "mape_raw (map Fin ts) (map Fin ps) = Fin (spec_mape ts ps)"
    unfolding mean spec_mape_def by (simp add: mult.commute)
  then have "mape_of (map Fin ts) (map Fin ps) = Fin (spec_mape ts ps)"
    by (simp add: mape_of_def)
  also have "Fin (spec_mape ts ps) =
      (if \<forall>t \<in> set ts. mape_excluded t
       then (if \<forall>p \<in> set ps. near_zero p then Fin 0 else PInf)
       else Fin (spec_mape ts ps))"
    using False by (rule if_not_P [symmetric])
  finally show ?thesis .
qed

text \<open>
  C8.  Whenever the evaluator returns, its MAPE is finite or \<open>+inf\<close>, never \<open>nan\<close>.  On
  finite true values \<open>ts\<close>, with \<open>ps\<close> the predictions after the substitution of C7 (the
  predictions themselves when they are all finite): if every true value has magnitude at
  most \<open>1e-7\<close>, MAPE is \<open>0\<close> when every prediction is approximately zero and \<open>+inf\<close>
  otherwise; if not, MAPE is the mean absolute percentage error over the positions whose
  true value has magnitude above \<open>1e-7\<close>.
\<close>

theorem evaluate_model_mape:
  assumes "evaluate_model sk y_true y_pred = Inr m"
  shows "(isfinite (MAPE m) \<or> MAPE m = PInf)
       \<and> (y_true = map Fin ts \<and> ts \<noteq> [] \<and> length y_pred = length ts
            \<and> fill_predictions y_true y_pred = map Fin ps \<longrightarrow>
          MAPE m =
            (if \<forall>t \<in> set ts. mape_excluded t
             then (if \<forall>p \<in> set ps. near_zero p then Fin 0 else PInf)
             else Fin (spec_mape ts ps)))"
proof (intro conjI impI)
  show "isfinite (MAPE m) \<or> MAPE m = PInf"
    using evaluate_model_MAPE [OF assms] mape_of_not_nan [of y_true "fill_predictions y_true y_pred"]
    by (simp split: if_splits)
next
  assume h: "y_true = map Fin ts \<and> ts \<noteq> [] \<and> length y_pred = length ts
            \<and> fill_predictions y_true y_pred = map Fin ps"
  then have yt: "y_true = map Fin ts" and ne: "ts \<noteq> []"
    and lp: "length y_pred = length ts"
    and fp: "fill_predictions y_true y_pred = map Fin ps"
    by blast+
  have "length (map Fin ps) = length y_pred"
    unfolding fp [symmetric] by (rule length_fill_predictions)
  with lp have len: "length ps = length ts" by simp
  have "MAPE m = mape_of y_true (fill_predictions y_true y_pred)"
    using evaluate_model_MAPE [OF assms] yt ne lp by simp
  then have "MAPE m = mape_of (map Fin ts) (map Fin ps)"
    unfolding fp unfolding yt .
  with len show "MAPE m =
            (if \<forall>t \<in> set ts. mape_excluded t
             then (if \<forall>p \<in> set ps. near_zero p then Fin 0 else PInf)
             else Fin (spec_mape ts ps))"
    by (simp only: mape_of_Fin)
qed

theorem evaluate_model_mape_witness:
  "map_sum id MAPE (evaluate_model textbook_metrics [Fin 0, Fin 0] [Fin 0, Fin 0]) = Inr (Fin 0)
   \<and> map_sum id MAPE (evaluate_model textbook_metrics [Fin 0] [Fin 5]) = Inr PInf
   \<and> map_sum id MAPE (evaluate_model textbook_metrics [Fin 0, Fin 2, Fin 4] [Fin 1, NaN, Fin 5])
       = Inr (Fin (25 / 2))"
  using
    evaluate_model_mape [of textbook_metrics "[Fin 0, Fin 0]" "[Fin 0, Fin 0]"
      "projr (evaluate_model textbook_metrics [Fin 0, Fin 0] [Fin 0, Fin 0])" "[0, 0]" "[0, 0]"]
    evaluate_model_mape [of textbook_metrics "[Fin 0]" "[Fin 5]"
      "projr (evaluate_model textbook_metrics [Fin 0] [Fin 5])" "[0]" "[5]"]
    evaluate_model_mape [of textbook_metrics "[Fin 0, Fin 2, Fin 4]" "[Fin 1, NaN, Fin 5]"
      "projr (evaluate_model textbook_metrics [Fin 0, Fin 2, Fin 4] [Fin 1, NaN, Fin 5])"
      "[0, 2, 4]" "[1, 2, 5]"]
  by (simp add: evaluate_model_def fill_predictions_def textbook_metrics_def squared_errors_def
      np_mean_def fl_sub_def mape_of_def mape_raw_def masked_def mape_mask_def allclose_zero_def
      fill_value_for_nan_def fill_value_for_posinf_def fill_value_for_neginf_def
      mape_excluded_def near_zero_def spec_mape_def spec_kept_def)

section \<open>Properties of the rolling loop\<close>

lemma slice_window:
  "i \<le> length lrs \<Longrightarrow> drop (i - lb) (take i lrs) = map ((!) lrs) [i - lb..<i]"
  by (rule nth_equalityI) auto

lemma forecast_step_value:
  assumes "lb \<le> i" and "i < length lrs" and "length prices = length lrs"
  shows "forecast_step L sc lb lrs prices (tr, a, b) i =
           Inr (step_trainer L sc lb lrs tr i,
                if Suc i < length lrs then a @ [prices ! Suc i] else a,
                if Suc i < length lrs then b @ [step_prediction L sc lb lrs prices (params tr) i]
                else b)"
proof -
  have "drop (i - lb) (take i lrs) = map ((!) lrs) [i - lb..<i]"
    using assms by (simp add: slice_window)
  with assms show ?thesis
    by (simp add: forecast_step_def Let_def step_trainer_def step_prediction_def window_def)
qed

lemma params_step_trainer: "params (step_trainer L sc lb lrs tr i) = params tr"
  by (simp add: step_trainer_def)

lemma opt_step_trainer: "opt (step_trainer L sc lb lrs tr i) = opt tr"
  by (simp add: step_trainer_def)

lemma params_foldl_step_trainer:
  "params (foldl (step_trainer L sc lb lrs) tr idx) = params tr"
  by (induction idx arbitrary: tr) (simp_all add: params_step_trainer)

lemma opt_foldl_step_trainer:
  "opt (foldl (step_trainer L sc lb lrs) tr idx) = opt tr"
  by (induction idx arbitrary: tr) (simp_all add: opt_step_trainer)

lemma rolling_loop_value:
  assumes "\<forall>i \<in> set idx. lb \<le> i \<and> i < length lrs" and "length prices = length lrs"
  shows "rolling_loop L sc lb lrs prices idx (tr, a, b) =
           Inr (foldl (step_trainer L sc lb lrs) tr idx,
                a @ map (\<lambda>i. prices ! Suc i) (filter (\<lambda>i. Suc i < length lrs) idx),
                b @ map (step_prediction L sc lb lrs prices (params tr))
                      (filter (\<lambda>i. Suc i < length lrs) idx))"
  using assms
proof (induction idx arbitrary: tr a b)
  case Nil
  then show ?case by simp
next
  case (Cons i rest)
  then have i: "lb \<le> i" "i < length lrs" by simp_all
  from Cons.prems have rest: "\<forall>i \<in> set rest. lb \<le> i \<and> i < length lrs" by simp
  show ?case
    using Cons.IH [OF rest Cons.prems(2)]
    by (simp add: forecast_step_value [OF i Cons.prems(2)] params_step_trainer)
qed

lemma filter_upt_last:
  "filter (\<lambda>i. Suc i < n) [a..<n] = [a..<n - 1]"
proof -
  have "filter (\<lambda>i. Suc i < n) [a..<n] = filter (\<lambda>i. i < n - 1) [a..<n]"
    by (rule filter_cong) auto
  also have "\<dots> = [a..<n - 1]"
  proof (cases "n")
    case 0
    then show ?thesis by simp
  next
    case (Suc m)
    show ?thesis
    proof (cases "a \<le> m")
      case True
      then show ?thesis using Suc by simp
    next
      case False
      then show ?thesis using Suc by simp
    qed
  qed
  finally show ?thesis .
qed

lemma forecast_step_params:
  "forecast_step L sc lb lrs prices (tr, a, b) i = Inr (tr', a', b') \<Longrightarrow>
   params tr' = params tr \<and> opt tr' = opt tr"
  by (auto simp: forecast_step_def Let_def split: if_splits)

lemma forecast_step_prefix:
  assumes "length lrs' = length lrs" and "take (Suc i) lrs' = take (Suc i) lrs"
  shows "forecast_step L sc lb lrs' prices st i = forecast_step L sc lb lrs prices st i"
proof -
  have "take i (take (Suc i) lrs') = take i (take (Suc i) lrs)"
    using assms(2) by simp
  then have t: "take i lrs' = take i lrs" by simp
  have n: "Suc i < length lrs \<Longrightarrow> lrs' ! i = lrs ! i"
  proof -
    assume "Suc i < length lrs"
    have "take (Suc i) lrs' ! i = take (Suc i) lrs ! i"
      using assms(2) by simp
    then show ?thesis by simp
  qed
  show ?thesis
    unfolding forecast_step_def t assms(1) using n
    by (cases st) (simp add: Let_def)
qed

lemma rolling_loop_prefix:
  assumes "\<forall>i \<in> set idx. i \<le> m" and "length lrs' = length lrs"
    and "take (Suc m) lrs' = take (Suc m) lrs"
  shows "rolling_loop L sc lb lrs' prices idx st = rolling_loop L sc lb lrs prices idx st"
  using assms(1)
proof (induction idx arbitrary: st)
  case Nil
  then show ?case by simp
next
  case (Cons i rest)
  then have "i \<le> m" by simp
  then have "take (Suc i) (take (Suc m) lrs') = take (Suc i) lrs'"
    and "take (Suc i) (take (Suc m) lrs) = take (Suc i) lrs"
    by (simp_all add: min_def)
  with assms(3) have "take (Suc i) lrs' = take (Suc i) lrs" by simp
  from forecast_step_prefix [OF assms(2) this]
  have "forecast_step L sc lb lrs' prices st i = forecast_step L sc lb lrs prices st i" .
  moreover from Cons.prems have "\<forall>i \<in> set rest. i \<le> m" by simp
  ultimately show ?case using Cons.IH by (simp split: sum.splits)
qed

section \<open>Properties of the initial training\<close>

lemma fst_foldl_train_batch:
  "fst (foldl (train_batch L) (tr, l, n) bs) = foldl (sgd_update L) tr bs"
  by (induction bs arbitrary: tr l n) (simp_all add: train_batch_def sgd_update_def Let_def)

lemma train_epoch_trainer:
  "fst (train_epoch L data e tr) = foldl (sgd_update L) tr (loader L e data)"
proof -
  obtain tr' l n where f: "foldl (train_batch L) (tr, Fin 0, 0) (loader L e data) = (tr', l, n)"
    by (cases "foldl (train_batch L) (tr, Fin 0, 0) (loader L e data)") auto
  then have "fst (train_epoch L data e tr) = tr'"
    by (simp add: train_epoch_def)
  moreover have "tr' = foldl (sgd_update L) tr (loader L e data)"
    using fst_foldl_train_batch [of L tr "Fin 0" 0 "loader L e data"] f by simp
  ultimately show ?thesis by simp
qed

lemma initial_training_trainer:
  "fst (initial_training L data es (tr, printed)) =
     foldl (\<lambda>tr e. foldl (sgd_update L) tr (loader L e data)) tr es"
proof (induction es arbitrary: tr printed)
  case Nil
  then show ?case by simp
next
  case (Cons e es)
  obtain tr' l where ep: "train_epoch L data e tr = (tr', l)"
    by (cases "train_epoch L data e tr") auto
  then have "tr' = foldl (sgd_update L) tr (loader L e data)"
    using train_epoch_trainer [of L data e tr] by simp
  with ep Cons.IH [of tr' "printed @ [l]"] show ?case by simp
qed

lemma initial_training_printed:
  "length (snd (initial_training L data es (tr, printed))) = length printed + length es"
proof (induction es arbitrary: tr printed)
  case Nil
  then show ?case by simp
next
  case (Cons e es)
  obtain tr' l where ep: "train_epoch L data e tr = (tr', l)"
    by (cases "train_epoch L data e tr") auto
  with Cons.IH [of tr' "printed @ [l]"] show ?case by simp
qed

section \<open>Properties of the engine\<close>

lemma supported_init:
  "supported cfg \<Longrightarrow> FFNNModel_init (hidden_sizes cfg) (activation cfg) = Inr ()"
  by (auto simp: supported_def FFNNModel_init_def)

lemma supported_criterion: "supported cfg \<Longrightarrow> get_criterion (loss_type cfg) = Inr ()"
  by (auto simp: supported_def get_criterion_def)

lemma concat_as_column: "concat (as_column xs) = xs"
  by (induction xs) (simp_all add: as_column_def)

lemma create_sequences_column:
  "create_sequences (as_column xs) lb =
     Inr (map (\<lambda>i. as_column (take lb (drop i xs))) [0..<length xs - lb],
          map (\<lambda>i. xs ! (i + lb)) [0..<length xs - lb])"
proof -
  have "\<forall>row \<in> set (as_column xs). row \<noteq> []"
    by (auto simp: as_column_def)
  from create_sequences_value [OF this, of lb] show ?thesis
    by (simp add: as_column_def take_map drop_map)
qed

lemma column_dataset:
  "zip (map concat (map (\<lambda>i. as_column (take lb (drop i xs))) [0..<n]))
       (map (\<lambda>i. xs ! (i + lb)) [0..<n])
     = map (\<lambda>i. (take lb (drop i xs), xs ! (i + lb))) [0..<n]"
  by (simp add: zip_map_map concat_as_column comp_def zip_same_conv_map del: upt.simps)

lemma rolling_forecast_unfold:
  assumes "\<not> int (length df) - T < int lb"
    and "FFNNModel_init (hidden_sizes cfg) (activation cfg) = Inr ()"
    and "get_criterion (loss_type cfg) = Inr ()"
    and "create_sequences
           (as_column (map (transform L (scaler_fit L (take (nat (int (length df) - T)) (map snd df))))
              (take (nat (int (length df) - T)) (map snd df)))) lb = Inr (X, y)"
  shows "rolling_forecast_ffnn L df lb pred_len cfg T =
     (if length X = 0 then Inr (Zeros (replicate pred_len (Fin 0)))
      else case rolling_loop L (scaler_fit L (take (nat (int (length df) - T)) (map snd df))) lb
                  (map snd df) (map fst df)
                  [nat (int (length df) - T)..<Suc (length df) - pred_len]
                  (fst (initial_training L (zip (map concat X) y) [0..<epochs cfg]
                     (\<lparr>params = new_model L, grad = new_grad L, opt = new_optimizer L\<rparr>, [])),
                   [], []) of
             Inl e \<Rightarrow> Inl e
           | Inr (tr, a, b) \<Rightarrow> Inr (Arrays a b))"
  using assms by (simp add: rolling_forecast_ffnn_def Let_def del: upt.simps)

lemma rolling_forecast_value:
  assumes cfg: "supported cfg" and T: "0 \<le> T" and ts: "int lb < int (length df) - T"
  shows "rolling_forecast_ffnn L df lb 1 cfg T =
           Inr (Arrays
             (map (\<lambda>i. fst (df ! Suc i)) [test_start df T..<length df - 1])
             (map (step_prediction L (phase1_scaler L df T) lb (map snd df) (map fst df)
                     (params (phase1_trainer L df lb cfg T)))
                [test_start df T..<length df - 1]))"
proof -
  let ?lrs = "map snd df" and ?prices = "map fst df"
  let ?ts = "nat (int (length df) - T)"
  let ?sc = "scaler_fit L (take ?ts ?lrs)"
  let ?scaled = "map (transform L ?sc) (take ?ts ?lrs)"
  let ?X = "map (\<lambda>i. as_column (take lb (drop i ?scaled))) [0..<?ts - lb]"
  let ?y = "map (\<lambda>i. ?scaled ! (i + lb)) [0..<?ts - lb]"
  let ?tr = "fst (initial_training L (zip (map concat ?X) ?y) [0..<epochs cfg]
                     (\<lparr>params = new_model L, grad = new_grad L, opt = new_optimizer L\<rparr>, []))"
  have ts_le: "?ts \<le> length df" and lb_ts: "lb < ?ts"
    using T ts by simp_all
  have len_scaled: "length ?scaled = ?ts"
    using ts_le by simp
  have not_small: "\<not> int (length df) - T < int lb"
    using ts by simp
  have seqs: "create_sequences (as_column ?scaled) lb = Inr (?X, ?y)"
    using create_sequences_column [of ?scaled lb] unfolding len_scaled .
  have data: "zip (map concat ?X) ?y = training_set L df lb T"
    unfolding column_dataset training_set_def Let_def phase1_scaler_def test_start_def len_scaled ..
  have tr: "?tr = phase1_trainer L df lb cfg T"
    unfolding data phase1_trainer_def ..
  have idx: "\<forall>i \<in> set [?ts..<length df]. lb \<le> i \<and> i < length ?lrs"
    using lb_ts by auto
  have len: "length ?prices = length ?lrs" by simp
  have fl: "filter (\<lambda>i. Suc i < length ?lrs) [?ts..<length df] = [?ts..<length df - 1]"
    using filter_upt_last [of "length df" ?ts] by simp
  have loop: "rolling_loop L ?sc lb ?lrs ?prices [?ts..<Suc (length df) - 1] (?tr, [], []) =
      Inr (foldl (step_trainer L ?sc lb ?lrs) ?tr [?ts..<length df],
           map (\<lambda>i. ?prices ! Suc i) [?ts..<length df - 1],
           map (step_prediction L ?sc lb ?lrs ?prices (params ?tr)) [?ts..<length df - 1])"
    using rolling_loop_value [OF idx len, of L ?sc ?tr "[]" "[]"]
    unfolding fl by simp
  have trues: "map (\<lambda>i. ?prices ! Suc i) [?ts..<length df - 1]
      = map (\<lambda>i. fst (df ! Suc i)) [?ts..<length df - 1]"
    by (rule map_cong) auto
  have nonempty: "length ?X \<noteq> 0"
    using lb_ts by simp
  have "rolling_forecast_ffnn L df lb 1 cfg T =
      Inr (Arrays (map (\<lambda>i. ?prices ! Suc i) [?ts..<length df - 1])
             (map (step_prediction L ?sc lb ?lrs ?prices (params ?tr)) [?ts..<length df - 1]))"
    unfolding rolling_forecast_unfold [OF not_small supported_init [OF cfg]
        supported_criterion [OF cfg] seqs]
    unfolding loop using nonempty by (simp only: if_False sum.case prod.case)
  then show ?thesis
    unfolding trues tr unfolding phase1_scaler_def test_start_def .
qed

lemma step_prediction_frame:
  assumes "i < length df"
  shows "step_prediction L sc lb (map snd df) (map fst df) p i =
           fl_mul (fst (df ! i))
             (fl_exp (inverse_transform L sc
                (forward L p (map (transform L sc) (map (\<lambda>j. snd (df ! j)) [i - lb..<i])))))"
proof -
  have eq: "map ((!) (map snd df)) [i - lb..<i] = map (\<lambda>j. snd (df ! j)) [i - lb..<i]"
    using assms by (intro map_cong) auto
  show ?thesis
    unfolding step_prediction_def window_def eq using assms by simp
qed

lemma rolling_forecast_loop:
  assumes cfg: "supported cfg" and T: "0 \<le> T" and ts: "int lb < int (length df) - T"
  shows "rolling_forecast_ffnn L df lb 1 cfg T =
      (case rolling_loop L (phase1_scaler L df T) lb (map snd df) (map fst df)
              [test_start df T..<length df] (phase1_trainer L df lb cfg T, [], []) of
         Inl e \<Rightarrow> Inl e
       | Inr (tr, a, b) \<Rightarrow> Inr (Arrays a b))"
proof -
  let ?lrs = "map snd df"
  have lb_ts: "lb < test_start df T"
    using T ts by (simp add: test_start_def)
  have idx: "\<forall>i \<in> set [test_start df T..<length df]. lb \<le> i \<and> i < length ?lrs"
    using lb_ts by auto
  have len: "length (map fst df) = length ?lrs" by simp
  have fl: "filter (\<lambda>i. Suc i < length ?lrs) [test_start df T..<length df]
      = [test_start df T..<length df - 1]"
    using filter_upt_last [of "length df" "test_start df T"] by simp
  have trues: "map (\<lambda>i. map fst df ! Suc i) [test_start df T..<length df - 1]
      = map (\<lambda>i. fst (df ! Suc i)) [test_start df T..<length df - 1]"
    by (rule map_cong) auto
  show ?thesis
    unfolding rolling_forecast_value [OF assms]
      rolling_loop_value [OF idx len, of L "phase1_scaler L df T" "phase1_trainer L df lb cfg T" "[]" "[]"]
      fl trues
    by simp
qed

lemma rolling_forecast_short:
  "int (length df) - T < int lb \<Longrightarrow> rolling_forecast_ffnn L df lb pred_len cfg T = Inr (Arrays [] [])"
  by (simp add: rolling_forecast_ffnn_def Let_def)

lemma rolling_forecast_boundary:
  assumes cfg: "supported cfg" and ts: "int (length df) - T = int lb"
  shows "rolling_forecast_ffnn L df lb pred_len cfg T = Inr (Zeros (replicate pred_len (Fin 0)))"
proof -
  let ?ts = "nat (int (length df) - T)"
  let ?scaled = "map (transform L (scaler_fit L (take ?ts (map snd df)))) (take ?ts (map snd df))"
  have not_small: "\<not> int (length df) - T < int lb"
    using ts by simp
  have "length ?scaled \<le> lb"
    using ts by simp
  then have none: "length ?scaled - lb = 0" by simp
  have seqs: "create_sequences (as_column ?scaled) lb = Inr ([], [])"
    using create_sequences_column [of ?scaled lb] unfolding none by simp
  show ?thesis
    unfolding rolling_forecast_unfold [OF not_small supported_init [OF cfg]
        supported_criterion [OF cfg] seqs]
    by simp
qed

lemma unpack_zeros: "n \<noteq> 2 \<Longrightarrow> unpack_two (Zeros (replicate n (Fin 0))) = Inl ValueError"
proof (cases n)
  case 0
  then show ?thesis by simp
next
  case (Suc m)
  assume "n \<noteq> 2"
  with Suc show ?thesis
    by (cases m; cases "m - 1") auto
qed

lemma rolling_forecast_nonempty:
  assumes "supported cfg" and "2 \<le> T" and "int lb < int (length df) - T"
  shows "rolling_forecast_ffnn L df lb 1 cfg T \<noteq> Inr (Arrays [] [])"
proof -
  have T0: "0 \<le> T" using assms(2) by simp
  have "test_start df T < length df - 1"
    using assms(2,3) by (simp add: test_start_def)
  then have "[test_start df T..<length df - 1] \<noteq> []" by simp
  then show ?thesis
    unfolding rolling_forecast_value [OF assms(1) T0 assms(3)] by simp
qed

section \<open>The small instance, evaluated\<close>

lemma demo_supported: "supported (demo_config n)"
  by (simp add: supported_def demo_config_def)

lemma demo_lib_fresh:
  "new_model demo_lib = 1" "new_grad demo_lib = 0" "new_optimizer demo_lib = 1"
  by (simp_all add: demo_lib_def)

lemma demo_scaler: "phase1_scaler demo_lib demo_df 3 = Fin (ln 2)"
  by (simp add: phase1_scaler_def test_start_def demo_lib_def demo_df_def np_mean_def)

lemma demo_training_set: "training_set demo_lib demo_df 1 3 = [([Fin 0], Fin 0), ([Fin 0], Fin 0)]"
  unfolding training_set_def demo_scaler
  by (simp add: test_start_def demo_lib_def demo_df_def fl_sub_def Let_def upt_conv_Cons)

lemma demo_epoch:
  "train_epoch demo_lib [([Fin 0], Fin 0), ([Fin 0], Fin 0)] e \<lparr>params = w, grad = g, opt = 1\<rparr>
     = (\<lparr>params = - w, grad = 2 * w, opt = 1\<rparr>, Fin (w * w))"
  by (simp add: train_epoch_def train_batch_def demo_lib_def np_mean_def fl_sub_def Let_def)

lemma demo_training:
  "initial_training demo_lib (training_set demo_lib demo_df 1 3) [0..<25]
     (\<lparr>params = 1, grad = 0, opt = 1\<rparr>, [])
   = (\<lparr>params = - 1, grad = 2, opt = 1\<rparr>, replicate 25 (Fin 1))"
  unfolding demo_training_set
  by (simp add: demo_epoch upt_conv_Cons eval_nat_numeral)

lemma demo_losses: "phase1_losses demo_lib demo_df 1 (demo_config 25) 3 = replicate 25 (Fin 1)"
  unfolding phase1_losses_def
  using demo_training by (simp add: demo_config_def demo_lib_fresh)

lemma demo_trainer25:
  "phase1_trainer demo_lib demo_df 1 (demo_config 25) 3 = \<lparr>params = - 1, grad = 2, opt = 1\<rparr>"
  unfolding phase1_trainer_def
  using demo_training by (simp add: demo_config_def demo_lib_fresh)

lemma demo_trainer2:
  "phase1_trainer demo_lib demo_df 1 (demo_config 2) 3 = \<lparr>params = 1, grad = - 2, opt = 1\<rparr>"
  unfolding phase1_trainer_def demo_training_set
  by (simp add: demo_config_def demo_lib_fresh demo_epoch upt_conv_Cons eval_nat_numeral)

section \<open>The claims about the engine\<close>

text \<open>
  C1.  The claim is that every iteration with a new true value takes one gradient step
  that changes the model parameters before the next prediction.  The update block of the
  loop computes the gradient and stops there: whatever the library, the data and the
  indices, the rolling loop returns the parameters and the optimiser state it was given.
  In the small instance the two updates leave the gradient 2 in the buffers and the
  weight at 1, where a step of the optimiser would have moved it to -1.
\<close>

theorem rolling_loop_never_steps:
  "rolling_loop L sc lb lrs prices idx (tr, a, b) = Inr (tr', a', b') \<Longrightarrow>
   params tr' = params tr \<and> opt tr' = opt tr"
proof (induction idx arbitrary: tr a b)
  case Nil
  then show ?case by simp
next
  case (Cons i rest)
  from Cons.prems obtain tr1 a1 b1 where
    step: "forecast_step L sc lb lrs prices (tr, a, b) i = Inr (tr1, a1, b1)"
    and loop: "rolling_loop L sc lb lrs prices rest (tr1, a1, b1) = Inr (tr', a', b')"
    by (auto split: sum.splits)
  from forecast_step_params [OF step] Cons.IH [OF loop] show ?case by simp
qed

theorem rolling_loop_never_steps_witness:
  "map_sum id fst
     (rolling_loop demo_lib (Fin (ln 2)) 1 (map snd demo_df) (map fst demo_df) [3..<6]
        (\<lparr>params = 1, grad = 0, opt = 1\<rparr>, [], []))
     = Inr \<lparr>params = 1, grad = 2, opt = 1\<rparr>
   \<and> optimizer_step demo_lib 1 1 2 = (1, - 1)"
proof -
  have run: "rolling_loop demo_lib (Fin (ln 2)) 1 (map snd demo_df) (map fst demo_df) [3..<6]
        (\<lparr>params = 1, grad = 0, opt = 1\<rparr>, [], [])
      = Inr (\<lparr>params = 1, grad = 2, opt = 1\<rparr>, [Fin 32, Fin 64],
             [Fin (16 * exp (1 + ln 2)), Fin (32 * exp (1 + ln 2))])"
    by (simp add: forecast_step_def demo_lib_def demo_df_def fl_sub_def Let_def upt_conv_Cons)
  from rolling_loop_never_steps [OF run] run show ?thesis
    by (simp add: demo_lib_def)
qed

text \<open>
  C2, as stated, fails: in the small instance with 25 epochs the initial training of the
  engine prints the loss 1 for each of the 25 epochs, so epochs 2 to 21 are twenty
  consecutive epochs without improvement and four more epochs follow; the learning rate
  is still 1 at the end, the gradient 2 (of norm above 1) is applied in full at every
  step, and the trainer left behind is the one of the last epoch.
\<close>

theorem initial_training_no_early_stop:
  "phase1_losses demo_lib demo_df 1 (demo_config 25) 3 = replicate 25 (Fin 1)
   \<and> \<not> spec_stops_early 20 (phase1_losses demo_lib demo_df 1 (demo_config 25) 3)
   \<and> phase1_trainer demo_lib demo_df 1 (demo_config 25) 3 = \<lparr>params = - 1, grad = 2, opt = 1\<rparr>"
  unfolding demo_losses demo_trainer25
  by (simp add: spec_stops_early_def spec_improved_def upt_conv_Cons list_all_iff)

text \<open>
  C2, amended.  The initial training of the engine runs exactly \<open>epochs\<close> epochs, one
  printed loss each; in every epoch each batch of the loader takes one optimiser step on
  the gradient as \<open>backward\<close> leaves it; nothing else touches the parameters or the
  optimiser, and the trainer that the engine hands to the rolling loop for prediction is
  the one after the last batch of the last epoch.
\<close>

theorem initial_training_plain:
  "length (phase1_losses L df lb cfg T) = epochs cfg
   \<and> phase1_trainer L df lb cfg T =
       foldl (\<lambda>tr e. foldl (sgd_update L) tr (loader L e (training_set L df lb T)))
         \<lparr>params = new_model L, grad = new_grad L, opt = new_optimizer L\<rparr> [0..<epochs cfg]
   \<and> (supported cfg \<and> 0 \<le> T \<and> int lb < int (length df) - T \<longrightarrow>
        rolling_forecast_ffnn L df lb 1 cfg T =
          (case rolling_loop L (phase1_scaler L df T) lb (map snd df) (map fst df)
                  [test_start df T..<length df] (phase1_trainer L df lb cfg T, [], []) of
             Inl e \<Rightarrow> Inl e
           | Inr (tr, a, b) \<Rightarrow> Inr (Arrays a b)))"
proof (intro conjI impI)
  show "length (phase1_losses L df lb cfg T) = epochs cfg"
    by (simp add: phase1_losses_def initial_training_printed)
  show "phase1_trainer L df lb cfg T =
       foldl (\<lambda>tr e. foldl (sgd_update L) tr (loader L e (training_set L df lb T)))
         \<lparr>params = new_model L, grad = new_grad L, opt = new_optimizer L\<rparr> [0..<epochs cfg]"
    by (simp add: phase1_trainer_def initial_training_trainer del: upt.simps)
next
  assume "supported cfg \<and> 0 \<le> T \<and> int lb < int (length df) - T"
  then have "supported cfg" "0 \<le> T" "int lb < int (length df) - T" by simp_all
  then show "rolling_forecast_ffnn L df lb 1 cfg T =
          (case rolling_loop L (phase1_scaler L df T) lb (map snd df) (map fst df)
                  [test_start df T..<length df] (phase1_trainer L df lb cfg T, [], []) of
             Inl e \<Rightarrow> Inl e
           | Inr (tr, a, b) \<Rightarrow> Inr (Arrays a b))"
    by (rule rolling_forecast_loop)
qed

theorem initial_training_plain_witness:
  "length (phase1_losses demo_lib demo_df 1 (demo_config 25) 3) = 25
   \<and> params (phase1_trainer demo_lib demo_df 1 (demo_config 25) 3) = - 1
   \<and> rolling_forecast_ffnn demo_lib demo_df 1 1 (demo_config 25) 3 =
       Inr (Arrays [Fin 32, Fin 64] [Fin (16 * exp (- 1 + ln 2)), Fin (32 * exp (- 1 + ln 2))])"
proof -
  note t = initial_training_plain [of demo_lib demo_df 1 "demo_config 25" 3]
  have "length (phase1_losses demo_lib demo_df 1 (demo_config 25) 3) = epochs (demo_config 25)"
    using t by (rule conjunct1)
  then have a: "length (phase1_losses demo_lib demo_df 1 (demo_config 25) 3) = 25"
    by (simp add: demo_config_def)
  have b: "params (phase1_trainer demo_lib demo_df 1 (demo_config 25) 3) = - 1"
    unfolding demo_trainer25 by simp
  have h: "supported (demo_config 25) \<and> (0::int) \<le> 3 \<and> int 1 < int (length demo_df) - 3"
    by (simp add: demo_supported demo_df_def)
  from t h have "rolling_forecast_ffnn demo_lib demo_df 1 1 (demo_config 25) 3 =
          (case rolling_loop demo_lib (phase1_scaler demo_lib demo_df 3) 1 (map snd demo_df)
                  (map fst demo_df) [test_start demo_df 3..<length demo_df]
                  (phase1_trainer demo_lib demo_df 1 (demo_config 25) 3, [], []) of
             Inl e \<Rightarrow> Inl e
           | Inr (tr, a, b) \<Rightarrow> Inr (Arrays a b))"
    by blast
  also have "\<dots> = Inr (Arrays [Fin 32, Fin 64]
      [Fin (16 * exp (- 1 + ln 2)), Fin (32 * exp (- 1 + ln 2))])"
    unfolding demo_trainer25 demo_scaler
    by (simp add: test_start_def forecast_step_def demo_lib_def demo_df_def fl_sub_def Let_def
        upt_conv_Cons)
  finally show ?thesis using a b by simp
qed

text \<open>
  C3.  For a supported configuration, a test-set size \<open>T \<ge> 1\<close> and
  \<open>test_start = N - T \<ge> lookback + 1\<close>, the engine (called with \<open>pred_len = 1\<close>, as \<open>main\<close>
  does) returns two arrays of length \<open>N - test_start - 1 = T - 1\<close>.  The \<open>k\<close>-th true value
  is the price at \<open>test_start + k + 1\<close>; the \<open>k\<close>-th predicted value is the price at
  \<open>test_start + k\<close> times the exponential of the inverse-standardised output of the
  network on the standardised log-returns at the \<open>lookback\<close> indices before
  \<open>test_start + k\<close>.  The network parameters are those of phase 1 at every step, since
  the loop does not change them.
\<close>

theorem rolling_forecast_arrays:
  assumes "supported cfg" and "1 \<le> T" and "int lb + 1 \<le> int (length df) - T"
  shows "\<exists>trues preds.
           rolling_forecast_ffnn L df lb 1 cfg T = Inr (Arrays trues preds)
         \<and> int (length trues) = T - 1 \<and> int (length preds) = T - 1
         \<and> int (length trues) = int (length df) - int (test_start df T) - 1
         \<and> (\<forall>k < length trues.
               trues ! k = fst (df ! (test_start df T + k + 1))
             \<and> preds ! k =
                 fl_mul (fst (df ! (test_start df T + k)))
                   (fl_exp (inverse_transform L (phase1_scaler L df T)
                      (forward L (params (phase1_trainer L df lb cfg T))
                         (map (transform L (phase1_scaler L df T))
                            (map (\<lambda>j. snd (df ! j))
                               [test_start df T + k - lb..<test_start df T + k]))))))"
proof -
  let ?ts = "test_start df T"
  let ?sc = "phase1_scaler L df T"
  let ?p = "params (phase1_trainer L df lb cfg T)"
  let ?trues = "map (\<lambda>i. fst (df ! Suc i)) [?ts..<length df - 1]"
  let ?preds = "map (step_prediction L ?sc lb (map snd df) (map fst df) ?p) [?ts..<length df - 1]"
  have T0: "0 \<le> T" and lt: "int lb < int (length df) - T"
    using assms by simp_all
  have run: "rolling_forecast_ffnn L df lb 1 cfg T = Inr (Arrays ?trues ?preds)"
    by (rule rolling_forecast_value [OF assms(1) T0 lt])
  have ts: "int ?ts = int (length df) - T"
    using assms by (simp add: test_start_def)
  then have len: "int (length df - 1 - ?ts) = T - 1"
    using assms by simp
  have nth: "\<forall>k < length ?trues.
      ?trues ! k = fst (df ! (?ts + k + 1))
      \<and> ?preds ! k =
          fl_mul (fst (df ! (?ts + k)))
            (fl_exp (inverse_transform L ?sc
               (forward L ?p (map (transform L ?sc)
                  (map (\<lambda>j. snd (df ! j)) [?ts + k - lb..<?ts + k])))))"
  proof (intro allI impI)
    fix k assume "k < length ?trues"
    then have k: "?ts + k < length df - 1" by simp
    then have "?ts + k < length df" by simp
    note pred = step_prediction_frame [OF this, of L ?sc lb ?p]
    have at: "[?ts..<length df - 1] ! k = ?ts + k"
      using k by (rule nth_upt)
    have lk: "k < length [?ts..<length df - 1]"
      using k by simp
    show "?trues ! k = fst (df ! (?ts + k + 1))
      \<and> ?preds ! k =
          fl_mul (fst (df ! (?ts + k)))
            (fl_exp (inverse_transform L ?sc
               (forward L ?p (map (transform L ?sc)
                  (map (\<lambda>j. snd (df ! j)) [?ts + k - lb..<?ts + k])))))"
      unfolding nth_map [OF lk] at pred by simp
  qed
  have "int (length ?trues) = T - 1" "int (length ?preds) = T - 1"
    "int (length ?trues) = int (length df) - int ?ts - 1"
    using len ts by simp_all
  with run nth show ?thesis by blast
qed

theorem rolling_forecast_arrays_witness:
  "rolling_forecast_ffnn demo_lib demo_df 1 1 (demo_config 2) 3 =
     Inr (Arrays [Fin 32, Fin 64] [Fin (16 * exp (1 + ln 2)), Fin (32 * exp (1 + ln 2))])"
proof -
  have T: "(1::int) \<le> 3" and lt: "int 1 + 1 \<le> int (length demo_df) - 3"
    by (simp_all add: demo_df_def)
  from rolling_forecast_arrays [OF demo_supported T lt, of demo_lib 2]
  obtain trues preds where
    run: "rolling_forecast_ffnn demo_lib demo_df 1 1 (demo_config 2) 3 = Inr (Arrays trues preds)"
    and len: "int (length trues) = 3 - 1" "int (length preds) = 3 - 1"
    and nth: "\<forall>k < length trues.
               trues ! k = fst (demo_df ! (test_start demo_df 3 + k + 1))
             \<and> preds ! k =
                 fl_mul (fst (demo_df ! (test_start demo_df 3 + k)))
                   (fl_exp (inverse_transform demo_lib (phase1_scaler demo_lib demo_df 3)
                      (forward demo_lib (params (phase1_trainer demo_lib demo_df 1 (demo_config 2) 3))
                         (map (transform demo_lib (phase1_scaler demo_lib demo_df 3))
                            (map (\<lambda>j. snd (demo_df ! j))
                               [test_start demo_df 3 + k - 1..<test_start demo_df 3 + k])))))"
    by blast
  from len have l2: "length trues = 2" "length preds = 2" by simp_all
  have ts: "test_start demo_df 3 = 3" by (simp add: test_start_def demo_df_def)
  have k0: "0 < length trues" and k1: "1 < length trues"
    using l2 by simp_all
  note n0 = nth [rule_format, OF k0, unfolded ts demo_trainer2 demo_scaler]
  note n1 = nth [rule_format, OF k1, unfolded ts demo_trainer2 demo_scaler]
  from n0 n1 have "trues ! 0 = Fin 32" "trues ! 1 = Fin 64"
    by (simp_all add: demo_df_def)
  with l2 have trues: "trues = [Fin 32, Fin 64]"
    by (cases trues; cases "tl trues"; cases "tl (tl trues)") auto
  from n0 n1 have "preds ! 0 = Fin (16 * exp (1 + ln 2))" "preds ! 1 = Fin (32 * exp (1 + ln 2))"
    by (simp_all add: demo_df_def demo_lib_def)
  with l2 have preds: "preds = [Fin (16 * exp (1 + ln 2)), Fin (32 * exp (1 + ln 2))]"
    by (cases preds; cases "tl preds"; cases "tl (tl preds)") auto
  from run trues preds show ?thesis by simp
qed

text \<open>
  C4.  Causality of the rolling loop, for a supported configuration, \<open>T \<ge> 0\<close>,
  \<open>test_start > lookback\<close> and a loop index \<open>i\<close> from \<open>test_start\<close> on.  The engine is the
  rolling loop run with the scaler fitted in phase 1, which is fitted on the log-returns
  at the indices below \<open>test_start\<close>; the loop only receives this scaler and applies it.
  Iteration \<open>i\<close> feeds the network the standardised log-returns at the indices
  \<open>i - lookback, ..., i - 1\<close>, and the example of its update block is this window with the
  standardised log-return at index \<open>i\<close> as label.  The iterations up to \<open>i\<close> give the same
  result on any other series of log-returns of the same length that agrees with this one
  at the indices up to \<open>i\<close>: no log-return beyond \<open>i\<close> is read.
\<close>

theorem walk_forward_causality:
  assumes "supported cfg" and "0 \<le> T" and "int lb < int (length df) - T"
    and "test_start df T \<le> i" and "i < length df"
  shows "rolling_forecast_ffnn L df lb 1 cfg T =
           (case rolling_loop L (phase1_scaler L df T) lb (map snd df) (map fst df)
                   [test_start df T..<length df] (phase1_trainer L df lb cfg T, [], []) of
              Inl e \<Rightarrow> Inl e
            | Inr (tr, a, b) \<Rightarrow> Inr (Arrays a b))
       \<and> phase1_scaler L df T = scaler_fit L (map (\<lambda>j. snd (df ! j)) [0..<test_start df T])
       \<and> (let w = map (transform L sc) (map (\<lambda>j. snd (df ! j)) [i - lb..<i])
          in forecast_step L sc lb (map snd df) (map fst df) (tr, a, b) i =
               Inr (if Suc i < length df
                    then tr\<lparr>grad := backward L (params tr) [(w, transform L sc (snd (df ! i)))]
                                      (zero_grad L (grad tr))\<rparr>
                    else tr,
                    if Suc i < length df then a @ [fst (df ! Suc i)] else a,
                    if Suc i < length df
                    then b @ [fl_mul (fst (df ! i))
                                (fl_exp (inverse_transform L sc (forward L (params tr) w)))]
                    else b))
       \<and> (\<forall>lrs'. length lrs' = length df \<and> take (Suc i) lrs' = take (Suc i) (map snd df) \<longrightarrow>
            rolling_loop L sc lb lrs' (map fst df) [test_start df T..<Suc i] st =
            rolling_loop L sc lb (map snd df) (map fst df) [test_start df T..<Suc i] st)"
proof (intro conjI allI impI)
  show "rolling_forecast_ffnn L df lb 1 cfg T =
           (case rolling_loop L (phase1_scaler L df T) lb (map snd df) (map fst df)
                   [test_start df T..<length df] (phase1_trainer L df lb cfg T, [], []) of
              Inl e \<Rightarrow> Inl e
            | Inr (tr, a, b) \<Rightarrow> Inr (Arrays a b))"
    by (rule rolling_forecast_loop [OF assms(1-3)])
next
  have "test_start df T \<le> length df"
    using assms(4,5) by simp
  then have "take (test_start df T) (map snd df) = map (\<lambda>j. snd (df ! j)) [0..<test_start df T]"
    by (intro nth_equalityI) auto
  then show "phase1_scaler L df T = scaler_fit L (map (\<lambda>j. snd (df ! j)) [0..<test_start df T])"
    by (simp add: phase1_scaler_def)
next
  have lb_i: "lb \<le> i"
    using assms(2-4) by (simp add: test_start_def)
  have i: "i < length (map snd df)" using assms(5) by simp
  have len: "length (map fst df) = length (map snd df)" by simp
  have eq: "map ((!) (map snd df)) [i - lb..<i] = map (\<lambda>j. snd (df ! j)) [i - lb..<i]"
    using assms(5) by (intro map_cong) auto
  show "let w = map (transform L sc) (map (\<lambda>j. snd (df ! j)) [i - lb..<i])
          in forecast_step L sc lb (map snd df) (map fst df) (tr, a, b) i =
               Inr (if Suc i < length df
                    then tr\<lparr>grad := backward L (params tr) [(w, transform L sc (snd (df ! i)))]
                                      (zero_grad L (grad tr))\<rparr>
                    else tr,
                    if Suc i < length df then a @ [fst (df ! Suc i)] else a,
                    if Suc i < length df
                    then b @ [fl_mul (fst (df ! i))
                                (fl_exp (inverse_transform L sc (forward L (params tr) w)))]
                    else b)"
    unfolding forecast_step_value [OF lb_i i len] step_trainer_def step_prediction_def
      window_def eq Let_def
    using assms(5) by simp
next
  fix lrs'
  assume h: "length lrs' = length df \<and> take (Suc i) lrs' = take (Suc i) (map snd df)"
  then have l: "length lrs' = length (map snd df)"
    and t: "take (Suc i) lrs' = take (Suc i) (map snd df)" by simp_all
  have idx: "\<forall>j \<in> set [test_start df T..<Suc i]. j \<le> i" by auto
  show "rolling_loop L sc lb lrs' (map fst df) [test_start df T..<Suc i] st =
        rolling_loop L sc lb (map snd df) (map fst df) [test_start df T..<Suc i] st"
    by (rule rolling_loop_prefix [OF idx l t])
qed

theorem walk_forward_causality_witness:
  "rolling_loop demo_lib (Fin (ln 2)) 1
       [Fin (ln 2), Fin (ln 2), Fin (ln 2), Fin (ln 2), Fin 7, NaN] (map fst demo_df)
       [test_start demo_df 3..<Suc 3] (\<lparr>params = 1, grad = 0, opt = 1\<rparr>, [], [])
     = rolling_loop demo_lib (Fin (ln 2)) 1 (map snd demo_df) (map fst demo_df)
         [test_start demo_df 3..<Suc 3] (\<lparr>params = 1, grad = 0, opt = 1\<rparr>, [], [])
   \<and> forecast_step demo_lib (Fin (ln 2)) 1 (map snd demo_df) (map fst demo_df)
         (\<lparr>params = 1, grad = 0, opt = 1\<rparr>, [], []) 3
       = Inr (\<lparr>params = 1, grad = 2, opt = 1\<rparr>, [Fin 32], [Fin (16 * exp (1 + ln 2))])
   \<and> phase1_scaler demo_lib demo_df 3 = Fin (ln 2)"
proof -
  have T: "(0::int) \<le> 3" and lt: "int 1 < int (length demo_df) - 3"
    and i1: "test_start demo_df 3 \<le> 3" and i2: "3 < length demo_df"
    by (simp_all add: demo_df_def test_start_def)
  note t = walk_forward_causality [OF demo_supported T lt i1 i2, of demo_lib 2 "Fin (ln 2)"
      "\<lparr>params = 1, grad = 0, opt = 1\<rparr>" "[]" "[]" "(\<lparr>params = 1, grad = 0, opt = 1\<rparr>, [], [])"]
  from t have sc: "phase1_scaler demo_lib demo_df 3 =
      scaler_fit demo_lib (map (\<lambda>j. snd (demo_df ! j)) [0..<test_start demo_df 3])"
    by blast
  from t have pre: "\<forall>lrs'. length lrs' = length demo_df
        \<and> take (Suc 3) lrs' = take (Suc 3) (map snd demo_df) \<longrightarrow>
      rolling_loop demo_lib (Fin (ln 2)) 1 lrs' (map fst demo_df) [test_start demo_df 3..<Suc 3]
        (\<lparr>params = 1, grad = 0, opt = 1\<rparr>, [], [])
      = rolling_loop demo_lib (Fin (ln 2)) 1 (map snd demo_df) (map fst demo_df)
          [test_start demo_df 3..<Suc 3] (\<lparr>params = 1, grad = 0, opt = 1\<rparr>, [], [])"
    by blast
  have a: "rolling_loop demo_lib (Fin (ln 2)) 1
       [Fin (ln 2), Fin (ln 2), Fin (ln 2), Fin (ln 2), Fin 7, NaN] (map fst demo_df)
       [test_start demo_df 3..<Suc 3] (\<lparr>params = 1, grad = 0, opt = 1\<rparr>, [], [])
     = rolling_loop demo_lib (Fin (ln 2)) 1 (map snd demo_df) (map fst demo_df)
         [test_start demo_df 3..<Suc 3] (\<lparr>params = 1, grad = 0, opt = 1\<rparr>, [], [])"
    by (rule pre [rule_format]) (simp add: demo_df_def)
  from t have "let w = map (transform demo_lib (Fin (ln 2))) (map (\<lambda>j. snd (demo_df ! j)) [3 - 1..<3])
          in forecast_step demo_lib (Fin (ln 2)) 1 (map snd demo_df) (map fst demo_df)
               (\<lparr>params = 1, grad = 0, opt = 1\<rparr>, [], []) 3 =
               Inr (if Suc 3 < length demo_df
                    then \<lparr>params = 1, grad = 0, opt = 1\<rparr>\<lparr>grad :=
                           backward demo_lib (params \<lparr>params = 1::real, grad = 0::real, opt = 1::real\<rparr>)
                             [(w, transform demo_lib (Fin (ln 2)) (snd (demo_df ! 3)))]
                             (zero_grad demo_lib (grad \<lparr>params = 1::real, grad = 0::real, opt = 1::real\<rparr>))\<rparr>
                    else \<lparr>params = 1, grad = 0, opt = 1\<rparr>,
                    if Suc 3 < length demo_df then [] @ [fst (demo_df ! Suc 3)] else [],
                    if Suc 3 < length demo_df
                    then [] @ [fl_mul (fst (demo_df ! 3))
                                (fl_exp (inverse_transform demo_lib (Fin (ln 2))
                                   (forward demo_lib (params \<lparr>params = 1::real, grad = 0::real, opt = 1::real\<rparr>) w)))]
                    else [])"
    by blast
  then have b: "forecast_step demo_lib (Fin (ln 2)) 1 (map snd demo_df) (map fst demo_df)
         (\<lparr>params = 1, grad = 0, opt = 1\<rparr>, [], []) 3
       = Inr (\<lparr>params = 1, grad = 2, opt = 1\<rparr>, [Fin 32], [Fin (16 * exp (1 + ln 2))])"
    by (simp add: Let_def demo_df_def demo_lib_def fl_sub_def)
  from sc have c: "phase1_scaler demo_lib demo_df 3 = Fin (ln 2)"
    by (simp add: demo_scaler)
  from a b c show ?thesis by simp
qed

text \<open>
  C5.  When \<open>test_start = N - T\<close> is below the lookback, the engine returns the pair of
  empty arrays without raising, whatever the configuration and \<open>pred_len\<close>; \<open>main\<close> records
  the entry with the worst metrics for this configuration and goes on with the remaining
  configurations.
\<close>

theorem insufficient_history:
  assumes "int (length df) - T < int (lookback cfg)"
  shows "rolling_forecast_ffnn (lib_of cfg) df (lookback cfg) pred_len cfg T = Inr (Arrays [] [])
       \<and> run_configuration (lib_of cfg) sk df cfg T = Inr failed_entry
       \<and> run_grid lib_of sk label df T (cfg # rest) results =
           run_grid lib_of sk label df T rest (results(label cfg \<mapsto> failed_entry))"
proof -
  have run: "rolling_forecast_ffnn (lib_of cfg) df (lookback cfg) n cfg T = Inr (Arrays [] [])"
    for n
    using assms by (rule rolling_forecast_short)
  have one: "run_configuration (lib_of cfg) sk df cfg T = Inr failed_entry"
    by (simp add: run_configuration_def run evaluate_model_def worst_metrics_def failed_entry_def)
  show ?thesis
    by (simp add: run one)
qed

theorem insufficient_history_witness:
  "run_grid (\<lambda>_. demo_lib) textbook_metrics lookback demo_df 6
     [demo_config 2, demo_config 2] Map.empty = Inr [1 \<mapsto> failed_entry]
   \<and> rolling_forecast_ffnn demo_lib demo_df 1 1 (demo_config 2) 6 = Inr (Arrays [] [])"
proof -
  have h: "int (length demo_df) - 6 < int (lookback (demo_config 2))"
    by (simp add: demo_df_def demo_config_def)
  note t = insufficient_history [OF h, of "\<lambda>_. demo_lib" 1 textbook_metrics lookback]
  have lb: "lookback (demo_config 2) = 1" by (simp add: demo_config_def)
  have "run_grid (\<lambda>_. demo_lib) textbook_metrics lookback demo_df 6
          [demo_config 2, demo_config 2] Map.empty
      = run_grid (\<lambda>_. demo_lib) textbook_metrics lookback demo_df 6
          [demo_config 2] [lookback (demo_config 2) \<mapsto> failed_entry]"
    using t [of "[demo_config 2]" Map.empty] by blast
  also have "\<dots> = run_grid (\<lambda>_. demo_lib) textbook_metrics lookback demo_df 6 []
          ([lookback (demo_config 2) \<mapsto> failed_entry]
             (lookback (demo_config 2) \<mapsto> failed_entry))"
    using t [of "[]" "[lookback (demo_config 2) \<mapsto> failed_entry]"] by blast
  also have "\<dots> = Inr [1 \<mapsto> failed_entry]"
    unfolding lb by simp
  finally have grid: "run_grid (\<lambda>_. demo_lib) textbook_metrics lookback demo_df 6
          [demo_config 2, demo_config 2] Map.empty = Inr [1 \<mapsto> failed_entry]" .
  have "rolling_forecast_ffnn demo_lib demo_df 1 1 (demo_config 2) 6 = Inr (Arrays [] [])"
    using t [of "[]" Map.empty] unfolding lb by blast
  with grid show ?thesis by simp
qed

text \<open>
  C10, as stated, fails in its middle part: the pair of empty arrays is not produced only
  when \<open>test_start < lookback\<close>.  In the small instance with a test set of one row,
  \<open>test_start = 5\<close> is above the lookback 1 and a lookback that the grid of \<open>main\<close> keeps;
  the only iteration of the loop is the last row, which has no next price to record, and
  the engine returns the pair of empty arrays.
\<close>

theorem empty_pair_with_history:
  "rolling_forecast_ffnn demo_lib demo_df 1 1 (demo_config 2) 1 = Inr (Arrays [] [])
   \<and> \<not> int (length demo_df) - 1 < int 1
   \<and> main_keeps_lookback (length demo_df) 1 1"
proof -
  have T: "(0::int) \<le> 1" and lt: "int 1 < int (length demo_df) - 1"
    by (simp_all add: demo_df_def)
  have "test_start demo_df 1 = length demo_df - 1"
    by (simp add: test_start_def demo_df_def)
  then have "rolling_forecast_ffnn demo_lib demo_df 1 1 (demo_config 2) 1 = Inr (Arrays [] [])"
    unfolding rolling_forecast_value [OF demo_supported T lt] by simp
  then show ?thesis
    by (simp add: demo_df_def main_keeps_lookback_def)
qed

text \<open>
  C10, amended.  For a supported configuration and a lookback of at least 1: when
  \<open>test_start = N - T\<close> equals the lookback, no training window can be built and the
  engine returns the single array \<open>np.zeros(pred_len)\<close>, one zero for \<open>pred_len = 1\<close>, not a
  pair; unpacking it into two names raises \<open>ValueError\<close> (for every \<open>pred_len\<close> other than
  2).  For a test-set size \<open>T \<ge> 2\<close> the engine returns the pair of empty arrays exactly
  when \<open>test_start < lookback\<close>.  A lookback that the grid of \<open>main\<close> keeps has
  \<open>test_start > lookback\<close>, so the loop of \<open>main\<close> does not itself make the call of the
  boundary case.
\<close>

theorem no_training_window:
  assumes "supported cfg" and "0 < lb"
  shows "(int (length df) - T = int lb \<longrightarrow>
            rolling_forecast_ffnn L df lb pred_len cfg T = Inr (Zeros (replicate pred_len (Fin 0)))
          \<and> rolling_forecast_ffnn L df lb 1 cfg T = Inr (Zeros [Fin 0])
          \<and> unpack_two (Zeros [Fin 0]) = Inl ValueError
          \<and> (pred_len \<noteq> 2 \<longrightarrow>
               unpack_two (Zeros (replicate pred_len (Fin 0))) = Inl ValueError))
       \<and> (2 \<le> T \<longrightarrow>
            (rolling_forecast_ffnn L df lb 1 cfg T = Inr (Arrays [] []))
              = (int (length df) - T < int lb))
       \<and> (main_keeps_lookback (length df) T lb \<longrightarrow> int lb < int (length df) - T)"
proof (intro conjI impI)
  assume b: "int (length df) - T = int lb"
  show "rolling_forecast_ffnn L df lb pred_len cfg T = Inr (Zeros (replicate pred_len (Fin 0)))"
    using assms(1) b by (rule rolling_forecast_boundary)
  show "rolling_forecast_ffnn L df lb 1 cfg T = Inr (Zeros [Fin 0])"
    using rolling_forecast_boundary [OF assms(1) b, of L 1] by simp
next
  show "unpack_two (Zeros [Fin 0]) = Inl ValueError" by simp
next
  assume "pred_len \<noteq> 2"
  then show "unpack_two (Zeros (replicate pred_len (Fin 0))) = Inl ValueError"
    by (rule unpack_zeros)
next
  assume T: "2 \<le> T"
  consider (short) "int (length df) - T < int lb" | (eq) "int (length df) - T = int lb"
    | (long) "int lb < int (length df) - T" by linarith
  then show "(rolling_forecast_ffnn L df lb 1 cfg T = Inr (Arrays [] []))
              = (int (length df) - T < int lb)"
  proof cases
    case short
    then show ?thesis by (simp add: rolling_forecast_short)
  next
    case eq
    from rolling_forecast_boundary [OF assms(1) eq, of L 1] eq show ?thesis by simp
  next
    case long
    from rolling_forecast_nonempty [OF assms(1) T long, of L] long show ?thesis by simp
  qed
next
  assume "main_keeps_lookback (length df) T lb"
  then show "int lb < int (length df) - T"
    by (simp add: main_keeps_lookback_def)
qed

theorem no_training_window_witness:
  "rolling_forecast_ffnn demo_lib demo_df 1 1 (demo_config 2) 5 = Inr (Zeros [Fin 0])
   \<and> unpack_two (Zeros [Fin 0]) = Inl ValueError
   \<and> rolling_forecast_ffnn demo_lib demo_df 1 1 (demo_config 2) 6 = Inr (Arrays [] [])
   \<and> rolling_forecast_ffnn demo_lib demo_df 1 1 (demo_config 2) 3 \<noteq> Inr (Arrays [] [])
   \<and> main_keeps_lookback (length demo_df) 3 1"
proof -
  have p: "0 < (1::nat)" by simp
  note t = no_training_window [OF demo_supported [of 2] p, where df = demo_df and L = demo_lib
      and pred_len = 1]
  have b: "int (length demo_df) - 5 = int 1" by (simp add: demo_df_def)
  from t [where T = 5] b have z: "rolling_forecast_ffnn demo_lib demo_df 1 1 (demo_config 2) 5
      = Inr (Zeros [Fin 0])" and u: "unpack_two (Zeros [Fin 0]) = Inl ValueError"
    by blast+
  have "(rolling_forecast_ffnn demo_lib demo_df 1 1 (demo_config 2) 6 = Inr (Arrays [] []))
      = (int (length demo_df) - 6 < int 1)"
    using t [where T = 6] by simp
  then have e: "rolling_forecast_ffnn demo_lib demo_df 1 1 (demo_config 2) 6 = Inr (Arrays [] [])"
    by (simp add: demo_df_def)
  have "(rolling_forecast_ffnn demo_lib demo_df 1 1 (demo_config 2) 3 = Inr (Arrays [] []))
      = (int (length demo_df) - 3 < int 1)"
    using t [where T = 3] by simp
  then have n: "rolling_forecast_ffnn demo_lib demo_df 1 1 (demo_config 2) 3 \<noteq> Inr (Arrays [] [])"
    by (simp add: demo_df_def)
  have k: "main_keeps_lookback (length demo_df) 3 1"
    by (simp add: main_keeps_lookback_def demo_df_def)
  from z u e n k show ?thesis by simp
qed

end
